theory Spec2Isabelle
  imports Main
begin

section \<open>Strings, numbers and JSON as the program uses them\<close>

text \<open>
  The program is one TypeScript file, \<^verbatim>\<open>src/index.ts\<close>. It reads named string inputs
  from the CI runtime, talks to the remote glossary service with three HTTP requests
  (DELETE, POST, GET) and reports through log lines, one output value and a failure
  signal. JavaScript strings are modelled as \<^typ>\<open>string\<close>, the integers the program
  handles as \<^typ>\<open>int\<close> and \<^typ>\<open>nat\<close>.
\<close>

datatype js_error = Error string | TypeError string | FetchError string

fun error_message :: "js_error \<Rightarrow> string" where
  "error_message (Error m) = m"
| "error_message (TypeError m) = m"
| "error_message (FetchError m) = m"

text \<open>Decimal rendering of a number inside a template literal.\<close>

fun string_of_nat :: "nat \<Rightarrow> string" where
  "string_of_nat n =
     (if n < 10 then [''0123456789'' ! n]
      else string_of_nat (n div 10) @ [''0123456789'' ! (n mod 10)])"

declare string_of_nat.simps [simp del]

definition string_of_int :: "int \<Rightarrow> string" where
  "string_of_int i =
     (if i < 0 then CHR ''-'' # string_of_nat (nat (- i)) else string_of_nat (nat i))"

text \<open>
  \<^verbatim>\<open>String.prototype.trim\<close> and the white space it removes (the ASCII part: space, tab,
  line feed, vertical tab, form feed, carriage return).
\<close>

definition is_space :: "char \<Rightarrow> bool" where
  "is_space c =
     (c = CHR 0x20 \<or> c = CHR 0x09 \<or> c = CHR 0x0A \<or> c = CHR 0x0B \<or> c = CHR 0x0C
      \<or> c = CHR 0x0D)"

definition trim :: "string \<Rightarrow> string" where
  "trim s = rev (dropWhile is_space (rev (dropWhile is_space s)))"

text \<open>
  \<^verbatim>\<open>s.split(",")\<close>: the pieces between the separators, in order; a string without a
  separator (the empty string too) is one piece.
\<close>

fun js_split :: "char \<Rightarrow> string \<Rightarrow> string list" where
  "js_split sep [] = [[]]"
| "js_split sep (c # cs) =
     (if c = sep then [] # js_split sep cs
      else (case js_split sep cs of
              [] \<Rightarrow> [[c]]
            | piece # pieces \<Rightarrow> (c # piece) # pieces))"

text \<open>
  \<^verbatim>\<open>parseInt(s)\<close> with no radix, after ECMAScript: leading white space is skipped, a sign
  is read, a \<^verbatim>\<open>0x\<close> prefix selects radix 16, and the longest prefix of digits of the radix
  is the value; with no digit the result is NaN, here \<^const>\<open>None\<close>. The Number that results
  is modelled by its mathematical value, which is exact up to \<open>2^53\<close>; minus zero is
  zero (the program only compares it, and \<^verbatim>\<open>-0 === 0\<close>).
\<close>

definition digit_value :: "char \<Rightarrow> nat option" where
  "digit_value c =
     map_of
       [(CHR ''0'', 0), (CHR ''1'', 1), (CHR ''2'', 2), (CHR ''3'', 3), (CHR ''4'', 4),
        (CHR ''5'', 5), (CHR ''6'', 6), (CHR ''7'', 7), (CHR ''8'', 8), (CHR ''9'', 9),
        (CHR ''a'', 10), (CHR ''b'', 11), (CHR ''c'', 12), (CHR ''d'', 13), (CHR ''e'', 14),
        (CHR ''f'', 15), (CHR ''A'', 10), (CHR ''B'', 11), (CHR ''C'', 12), (CHR ''D'', 13),
        (CHR ''E'', 14), (CHR ''F'', 15)] c"

definition is_digit :: "nat \<Rightarrow> char \<Rightarrow> bool" where
  "is_digit R c = (case digit_value c of None \<Rightarrow> False | Some d \<Rightarrow> d < R)"

definition digits_value :: "nat \<Rightarrow> string \<Rightarrow> nat" where
  "digits_value R Z = foldl (\<lambda>acc c. acc * R + the (digit_value c)) 0 Z"

definition parseInt :: "string \<Rightarrow> int option" where
  "parseInt s =
     (let S = dropWhile is_space s;
          sign = (if take 1 S = ''-'' then - 1 else 1 :: int);
          S = (if take 1 S = ''+'' \<or> take 1 S = ''-'' then drop 1 S else S);
          hex = (take 2 S = ''0x'' \<or> take 2 S = ''0X'');
          R = (if hex then 16 else 10);
          S = (if hex then drop 2 S else S);
          Z = takeWhile (is_digit R) S
      in if Z = [] then None else Some (sign * int (digits_value R Z)))"

text \<open>
  JSON values and \<^verbatim>\<open>JSON.stringify\<close>: an object keeps the order of its properties, a
  string is quoted with the quote, the backslash and the control characters escaped.
\<close>

datatype json = JNumber int | JString string | JArray "json list" | JObject "(string \<times> json) list"

definition quote_char :: "char \<Rightarrow> string" where
  "quote_char c =
     (if c = CHR 0x22 then [CHR 0x5C, CHR 0x22]
      else if c = CHR 0x5C then [CHR 0x5C, CHR 0x5C]
      else if c = CHR 0x08 then [CHR 0x5C, CHR ''b'']
      else if c = CHR 0x0C then [CHR 0x5C, CHR ''f'']
      else if c = CHR 0x0A then [CHR 0x5C, CHR ''n'']
      else if c = CHR 0x0D then [CHR 0x5C, CHR ''r'']
      else if c = CHR 0x09 then [CHR 0x5C, CHR ''t'']
      else if (of_char c :: nat) < 32
        then CHR 0x5C # ''u00'' @ [''0123456789abcdef'' ! (of_char c div 16),
                                  ''0123456789abcdef'' ! (of_char c mod 16)]
      else [c])"

definition quote :: "string \<Rightarrow> string" where
  "quote s = CHR 0x22 # concat (map quote_char s) @ [CHR 0x22]"

fun join :: "string \<Rightarrow> string list \<Rightarrow> string" where
  "join sep [] = []"
| "join sep [x] = x"
| "join sep (x # y # ys) = x @ sep @ join sep (y # ys)"

fun JSON_stringify :: "json \<Rightarrow> string" where
  "JSON_stringify (JNumber n) = string_of_int n"
| "JSON_stringify (JString s) = quote s"
| "JSON_stringify (JArray xs) = ''['' @ join '','' (map JSON_stringify xs) @ '']''"
| "JSON_stringify (JObject kvs) =
     ''{'' @ join '','' (map (\<lambda>(k, v). quote k @ '':'' @ JSON_stringify v) kvs) @ ''}''"

text \<open>Reading a property of an object: \<^const>\<open>None\<close> is JavaScript's \<^verbatim>\<open>undefined\<close>.\<close>

fun property :: "json \<Rightarrow> string \<Rightarrow> json option" where
  "property (JObject kvs) k = map_of kvs k"
| "property _ k = None"

section \<open>The data model of \<^verbatim>\<open>index.ts\<close>\<close>

datatype STATE = FAILED | RUNNING | SUCCEEDED

fun STATE_string :: "STATE \<Rightarrow> string" where
  "STATE_string FAILED = ''FAILED''"
| "STATE_string RUNNING = ''RUNNING''"
| "STATE_string SUCCEEDED = ''SUCCEEDED''"

record MetaData =
  md_type :: string
  md_name :: string
  state :: STATE

record ErrorMessage =
  code :: int
  message :: string
  em_status :: "string option"

record GoogleResponse =
  name :: "string option"
  metadata :: "MetaData option"
  error :: "ErrorMessage option"
  done_field :: "string option"

record RequiredInputs =
  accessToken :: string
  bucketName :: string
  glossaryName :: string
  glossaryFileName :: string
  projectId :: string

datatype CreateType = onePair | codesSet

text \<open>
  The JSON value of a decoded response, for \<^verbatim>\<open>JSON.stringify(message)\<close>: the properties
  that are present, in the order of the interface.
\<close>

definition present :: "string \<Rightarrow> 'a option \<Rightarrow> ('a \<Rightarrow> json) \<Rightarrow> (string \<times> json) list" where
  "present k v f = (case v of None \<Rightarrow> [] | Some x \<Rightarrow> [(k, f x)])"

definition MetaData_json :: "MetaData \<Rightarrow> json" where
  "MetaData_json m =
     JObject [(''@type'', JString (md_type m)), (''name'', JString (md_name m)),
              (''state'', JString (STATE_string (state m)))]"

definition ErrorMessage_json :: "ErrorMessage \<Rightarrow> json" where
  "ErrorMessage_json e =
     JObject ([(''code'', JNumber (code e)), (''message'', JString (message e))]
              @ present ''status'' (em_status e) JString)"

definition GoogleResponse_json :: "GoogleResponse \<Rightarrow> json" where
  "GoogleResponse_json g =
     JObject (present ''name'' (name g) JString @ present ''metadata'' (metadata g) MetaData_json
              @ present ''error'' (error g) ErrorMessage_json
              @ present ''done'' (done_field g) JString)"

section \<open>Effects: the calls on the CI runtime, the network and the timer\<close>

text \<open>
  A request as \<^verbatim>\<open>fetch\<close> receives it, and the part of a response the program reads:
  the status, the body as text (\<^verbatim>\<open>resp.text()\<close>) and the body decoded and cast to
  \<^verbatim>\<open>GoogleResponse\<close> (\<^verbatim>\<open>resp.json()\<close>, which rejects when the body is not JSON).
\<close>

record request =
  req_method :: string
  req_url :: string
  req_headers :: "(string \<times> string) list"
  req_body :: "string option"

record response =
  status :: nat
  resp_text :: string
  resp_json :: "js_error + GoogleResponse"

text \<open>
  Every call the program makes on a collaborator is an event, in the order of the calls:
  reading an input, a log line of each level, the output value, the failure signal, a
  network request and the timer (milliseconds).
\<close>

datatype event =
    GetInput string
  | Debug string
  | Info string
  | Warning string
  | ErrorLog string
  | SetOutput string "string option"
  | SetFailed string
  | Fetch request
  | SetTimeout int

text \<open>
  An awaited computation: it returns or throws, and leaves the events it caused.
  \<open>and_then\<close> is the sequencing of statements, where a throw skips what follows.
\<close>

type_synonym 'a io = "(js_error + 'a) \<times> event list"

definition ret :: "'a \<Rightarrow> 'a io" where
  "ret x = (Inr x, [])"

definition throw :: "js_error \<Rightarrow> 'a io" where
  "throw e = (Inl e, [])"

definition emit :: "event \<Rightarrow> unit io" where
  "emit ev = (Inr (), [ev])"

definition settle :: "js_error + 'a \<Rightarrow> 'a io" where
  "settle r = (r, [])"

definition and_then :: "'a io \<Rightarrow> ('a \<Rightarrow> 'b io) \<Rightarrow> 'b io" where
  "and_then m f =
     (case m of
        (Inl e, t) \<Rightarrow> (Inl e, t)
      | (Inr x, t) \<Rightarrow> (case f x of (r, t') \<Rightarrow> (r, t @ t')))"

type_synonym inputs = "string \<Rightarrow> string"

text \<open>
  Modelled from the spec: the CI input collaborator, \<^verbatim>\<open>core.getInput\<close> of the Actions
  toolkit, which is not part of the repository. The runtime holds a raw string per input
  name (empty when the input is absent); a required input that is empty fails the run,
  and every value comes back with its white space trimmed.
\<close>

definition getInput :: "inputs \<Rightarrow> string \<Rightarrow> bool \<Rightarrow> string io" where
  "getInput env nm required =
     and_then (emit (GetInput nm)) (\<lambda>_.
       let val = env nm in
       if required \<and> val = [] then throw (Error (''Input required and not supplied: '' @ nm))
       else ret (trim val))"

text \<open>
  The remote service answers each request with a response, or the transport fails.
  The three requests of a run differ in their method, so a function of the request
  covers every sequence of answers.
\<close>

type_synonym remote = "request \<Rightarrow> js_error + response"

definition fetch :: "remote \<Rightarrow> request \<Rightarrow> response io" where
  "fetch srv req = and_then (emit (Fetch req)) (\<lambda>_. settle (srv req))"

text \<open>
  The calls of a run that act on the world, in order: a network request (by its method),
  the timer, the output value and the failure signal. Log lines and input reads are left
  out.
\<close>

datatype call = Net string | Timer int | Output string "string option" | Failure string

fun call_of :: "event \<Rightarrow> call option" where
  "call_of (Fetch req) = Some (Net (req_method req))"
| "call_of (SetTimeout ms) = Some (Timer ms)"
| "call_of (SetOutput k v) = Some (Output k v)"
| "call_of (SetFailed m) = Some (Failure m)"
| "call_of _ = None"

fun calls :: "event list \<Rightarrow> call list" where
  "calls [] = []"
| "calls (ev # t) = (case call_of ev of None \<Rightarrow> calls t | Some c \<Rightarrow> c # calls t)"

text \<open>The network requests of a run, and the input names it reads, in order.\<close>

fun requests :: "event list \<Rightarrow> request list" where
  "requests [] = []"
| "requests (Fetch req # t) = req # requests t"
| "requests (ev # t) = requests t"

fun read_of :: "event \<Rightarrow> string option" where
  "read_of (GetInput nm) = Some nm"
| "read_of _ = None"

fun reads :: "event list \<Rightarrow> string list" where
  "reads [] = []"
| "reads (ev # t) = (case read_of ev of None \<Rightarrow> reads t | Some nm \<Rightarrow> nm # reads t)"

text \<open>The output values a run sets and the failure signals it raises, in order.\<close>

fun failures :: "event list \<Rightarrow> string list" where
  "failures [] = []"
| "failures (SetFailed m # t) = m # failures t"
| "failures (ev # t) = failures t"

fun outputs :: "event list \<Rightarrow> (string \<times> string option) list" where
  "outputs [] = []"
| "outputs (SetOutput k v # t) = (k, v) # outputs t"
| "outputs (ev # t) = outputs t"

section \<open>The three operations\<close>

text \<open>
  Each operation sends one request; the request is named so that theorems can speak of
  it. \<^verbatim>\<open>createGlossary\<close> and \<^verbatim>\<open>headOperation\<close> log and throw the texts of
  \<^verbatim>\<open>deleteGlossary\<close>, as the source has them.
\<close>

definition create_request :: "string \<Rightarrow> string \<Rightarrow> string \<Rightarrow> request" where
  "create_request input projectId' accessToken' =
     (let endPoint = ''https://translation.googleapis.com/v3/projects/'' @ projectId'
                      @ ''/locations/us-central1/glossaries'' in
      \<lparr>req_method = ''POST'', req_url = endPoint,
       req_headers = [(''Authorization'', ''Bearer '' @ accessToken'),
                      (''Content-Type'', ''application/json; charset=utf-8'')],
       req_body = Some input\<rparr>)"

definition createGlossary :: "remote \<Rightarrow> string \<Rightarrow> string \<Rightarrow> string \<Rightarrow> string option io" where
  "createGlossary srv input projectId' accessToken' =
     and_then (fetch srv (create_request input projectId' accessToken')) (\<lambda>resp.
     if status resp \<ge> 300 then
       (let msg = resp_text resp in
        and_then (emit (Debug (''error message:'' @ msg))) (\<lambda>_.
        and_then (emit (ErrorLog (''delete glossary request failed with status:''
                          @ string_of_nat (status resp) @ '' message:'' @ msg))) (\<lambda>_.
        throw (Error ''delete request failed''))))
     else and_then (settle (resp_json resp)) (\<lambda>msg. ret (name msg)))"

definition delete_request :: "string \<Rightarrow> string \<Rightarrow> string \<Rightarrow> request" where
  "delete_request projectId' glossaryName' accessToken' =
     (let endPoint = ''https://translation.googleapis.com/v3/projects/'' @ projectId'
                      @ ''/locations/us-central1/glossaries/'' @ glossaryName' in
      \<lparr>req_method = ''DELETE'', req_url = endPoint,
       req_headers = [(''Authorization'', ''Bearer '' @ accessToken')],
       req_body = None\<rparr>)"

definition deleteGlossary :: "remote \<Rightarrow> string \<Rightarrow> string \<Rightarrow> string \<Rightarrow> unit io" where
  "deleteGlossary srv projectId' glossaryName' accessToken' =
     and_then (fetch srv (delete_request projectId' glossaryName' accessToken')) (\<lambda>resp.
     if status resp = 404 then
       and_then (emit (Debug (''response message: '' @ resp_text resp))) (\<lambda>_.
       emit (Warning (''glossary '' @ glossaryName' @ '' is not found,continue to create'')))
     else if status resp \<ge> 300 then
       (let msg = resp_text resp in
        and_then (emit (Debug (''error message:'' @ msg))) (\<lambda>_.
        and_then (emit (ErrorLog (''delete glossary request failed with status:''
                          @ string_of_nat (status resp) @ '' message:''
                          @ JSON_stringify (JString msg)))) (\<lambda>_.
        throw (Error ''delete request failed''))))
     else emit (Debug (''response message :'' @ resp_text resp)))"

definition inspect_request :: "string \<Rightarrow> string \<Rightarrow> request" where
  "inspect_request nm accessToken' =
     (let endPoint = ''https://translation.googleapis.com/v3/'' @ nm in
      \<lparr>req_method = ''GET'', req_url = endPoint,
       req_headers = [(''Authorization'', ''Bearer '' @ accessToken')],
       req_body = None\<rparr>)"

definition headOperation :: "remote \<Rightarrow> string \<Rightarrow> string \<Rightarrow> GoogleResponse io" where
  "headOperation srv nm accessToken' =
     and_then (fetch srv (inspect_request nm accessToken')) (\<lambda>resp.
     if status resp \<ge> 300 then
       and_then (settle (resp_json resp)) (\<lambda>msg.
       and_then (emit (Debug ''error message:[object Object]'')) (\<lambda>_.
       and_then (emit (ErrorLog (''delete glossary request failed with status:''
                         @ string_of_nat (status resp) @ '' message:''
                         @ JSON_stringify (GoogleResponse_json msg)))) (\<lambda>_.
       throw (Error ''delete request failed''))))
     else settle (resp_json resp))"

definition getRequiredInputs :: "inputs \<Rightarrow> RequiredInputs io" where
  "getRequiredInputs env =
     and_then (getInput env ''access-token'' False) (\<lambda>accessToken'.
     and_then (getInput env ''bucket-name'' True) (\<lambda>bucketName'.
     and_then (getInput env ''glossary-name'' True) (\<lambda>glossaryName'.
     and_then (getInput env ''glossary-file-name'' True) (\<lambda>glossaryFileName'.
     and_then (getInput env ''project-id'' True) (\<lambda>projectId'.
     ret \<lparr>accessToken = accessToken', bucketName = bucketName',
          glossaryName = glossaryName', glossaryFileName = glossaryFileName',
          projectId = projectId'\<rparr>)))))"

section \<open>The coordinator and the top-level dispatch\<close>

text \<open>
  \<^verbatim>\<open>handler(...inputsRaw)\<close> is one function in the source. Four stretches of its body
  are named here (the request body \<^verbatim>\<open>input\<close>, the wait time, the pause and the checks
  on the snapshot), and the handler below calls them where the source has their lines.

  The request body \<^verbatim>\<open>input\<close> (the \<^verbatim>\<open>switch\<close> on the type). In the branch \<open>onePair\<close>
  the list has two elements, so both reads are in range; in the branch \<open>codesSet\<close> it
  may be empty, \<^verbatim>\<open>inputsRaw[0]\<close> is then \<^verbatim>\<open>undefined\<close> and calling \<^verbatim>\<open>split\<close> on it
  throws a TypeError.
\<close>

definition glossaryFullName :: "RequiredInputs \<Rightarrow> string" where
  "glossaryFullName ri =
     ''projects/'' @ projectId ri @ ''/locations/us-central1/glossaries/'' @ glossaryName ri"

definition glossaryFilePath :: "RequiredInputs \<Rightarrow> string" where
  "glossaryFilePath ri = ''gs://'' @ bucketName ri @ ''/'' @ glossaryFileName ri"

definition input :: "CreateType \<Rightarrow> RequiredInputs \<Rightarrow> string list \<Rightarrow> string io" where
  "input type ri inputsRaw =
     (case type of
        onePair \<Rightarrow>
          ret (JSON_stringify (JObject
            [(''name'', JString (glossaryFullName ri)),
             (''languagePair'', JObject
                [(''sourceLanguageCode'', JString (inputsRaw ! 0)),
                 (''targetLanguageCode'', JString (inputsRaw ! 1))]),
             (''inputConfig'', JObject
                [(''gcsSource'', JObject [(''inputUri'', JString (glossaryFilePath ri))])])]))
      | codesSet \<Rightarrow>
          (case inputsRaw of
             [] \<Rightarrow> throw (TypeError ''Cannot read properties of undefined (reading 'split')'')
           | first # _ \<Rightarrow>
               let codes = js_split CHR '','' first in
               ret (JSON_stringify (JObject
                 [(''name'', JString (glossaryFullName ri)),
                  (''languageCodesSet'', JObject
                     [(''languageCodes'', JArray (map JString codes))]),
                  (''inputConfig'', JObject
                     [(''gcsSource'',
                       JObject [(''inputUri'', JString (glossaryFilePath ri))])])]))))"

text \<open>
  The wait time, from the raw text of the input \<^verbatim>\<open>wait-time\<close>: \<^verbatim>\<open>parseInt\<close>, zero
  for NaN, and \<open>300\<close> for anything above.
\<close>

definition waitTime :: "string \<Rightarrow> int" where
  "waitTime raw =
     (let waitTimeRaw = parseInt raw;
          waitTime = (case waitTimeRaw of None \<Rightarrow> 0 | Some v \<Rightarrow> v);
          waitTime = (if waitTime > 300 then 300 else waitTime)
      in waitTime)"

text \<open>
  The checks on the snapshot that \<^verbatim>\<open>headOperation\<close> returned. The remote message in the
  log line is \<^verbatim>\<open>message.error?.message\<close>, the text \<^verbatim>\<open>undefined\<close> when there is none.
\<close>

definition check :: "GoogleResponse \<Rightarrow> GoogleResponse io" where
  "check msg =
     (case metadata msg of
        None \<Rightarrow>
          and_then (emit (ErrorLog ''failed to parse google response of metaData field'')) (\<lambda>_.
          throw (Error ''failed to parse google response of metaData field''))
      | Some md \<Rightarrow>
          if state md = FAILED then
            and_then (emit (ErrorLog (''create operation has failed. message:''
                 @ (case error msg of None \<Rightarrow> ''undefined'' | Some e \<Rightarrow> message e)))) (\<lambda>_.
            throw (Error ''create operation failed''))
          else ret msg)"

text \<open>
  A name is falsy (\<^verbatim>\<open>!name\<close>) when it is undefined or the empty string; past that test
  the name is a string, which \<^const>\<open>the\<close> reads.
\<close>

definition falsy :: "string option \<Rightarrow> bool" where
  "falsy v = (case v of None \<Rightarrow> True | Some s \<Rightarrow> s = [])"

definition pause :: "int \<Rightarrow> unit io" where
  "pause secs =
     (if secs \<noteq> 0 then
        and_then (emit (Info (''wait for '' @ string_of_int secs @ '' secs...''))) (\<lambda>_.
        emit (SetTimeout (secs * 1000)))
      else ret ())"

definition handler :: "inputs \<Rightarrow> remote \<Rightarrow> string list \<Rightarrow> GoogleResponse io" where
  "handler env srv inputsRaw =
     (if length inputsRaw > 2 then throw (Error ''input can not be more than 2 string object'')
      else
        let type = (if length inputsRaw > 1 then onePair else codesSet) in
        and_then (getRequiredInputs env) (\<lambda>ri.
        and_then (emit (Info (''try delete existed resource: '' @ projectId ri @ ''/''
                          @ glossaryName ri))) (\<lambda>_.
        and_then (deleteGlossary srv (projectId ri) (glossaryName ri) (accessToken ri)) (\<lambda>_.
        and_then (input type ri inputsRaw) (\<lambda>body.
        and_then (emit (Info (''try create glossary resource: '' @ projectId ri @ ''/''
                          @ glossaryName ri))) (\<lambda>_.
        and_then (createGlossary srv body (projectId ri) (accessToken ri)) (\<lambda>nm.
        if falsy nm then
          and_then (emit (ErrorLog ''failed to parse google response of name field'')) (\<lambda>_.
          throw (Error ''failed to parse google response of name field''))
        else
          and_then (getInput env ''wait-time'' False) (\<lambda>raw.
          and_then (pause (waitTime raw)) (\<lambda>_.
          and_then (emit (Info (''try head operation: '' @ the nm))) (\<lambda>_.
          and_then (headOperation srv (the nm) (accessToken ri)) check))))))))))"

text \<open>
  \<^verbatim>\<open>main\<close>: the three optional inputs decide the mode. The state written to the log is
  \<^verbatim>\<open>message.metadata?.state\<close>; the handler only returns a message that has metadata.
\<close>

definition report :: "GoogleResponse \<Rightarrow> unit io" where
  "report msg =
     and_then
       (if map_option state (metadata msg) = Some RUNNING
        then emit (SetOutput ''operation-name'' (name msg)) else ret ()) (\<lambda>_.
     emit (Info (''update is ''
       @ (case metadata msg of None \<Rightarrow> ''undefined'' | Some md \<Rightarrow> STATE_string (state md)))))"

definition main :: "inputs \<Rightarrow> remote \<Rightarrow> unit io" where
  "main env srv =
     and_then (getInput env ''target-language'' False) (\<lambda>targetLanguage.
     and_then (getInput env ''source-language'' False) (\<lambda>sourceLanguage.
     and_then (getInput env ''language-codes-set'' False) (\<lambda>languageCodesSet.
     if length targetLanguage \<noteq> 0 \<and> length sourceLanguage \<noteq> 0 then
       and_then (emit (Info (''detected sourceLanguage: '' @ sourceLanguage
                         @ '', targetLanguage '' @ targetLanguage))) (\<lambda>_.
       and_then (emit (Info ''create one pair glossary resource'')) (\<lambda>_.
       and_then (handler env srv [targetLanguage, sourceLanguage]) report))
     else if length languageCodesSet \<noteq> 0 then
       and_then (emit (Info (''detected language codes set: '' @ languageCodesSet))) (\<lambda>_.
       and_then (emit (Info ''create multi-language glossary resource'')) (\<lambda>_.
       and_then (handler env srv [languageCodesSet]) report))
     else throw (Error ''Not appropriate language code input setting''))))"

text \<open>
  The entry point is \<^verbatim>\<open>try { main(); } catch (error) { core.setFailed(error.message); }\<close>.
  \<^verbatim>\<open>main\<close> is an async function and the call is not awaited: a call of an async function
  never throws to its caller, it returns a promise that holds the outcome. The events of
  the body still happen; the \<^verbatim>\<open>catch\<close> block only runs for an error thrown to the
  \<^verbatim>\<open>try\<close> block itself.
\<close>

datatype 'a promise = Fulfilled 'a | Rejected js_error

definition call_async :: "'a io \<Rightarrow> 'a promise io" where
  "call_async m =
     (case m of
        (Inl e, t) \<Rightarrow> (Inr (Rejected e), t)
      | (Inr x, t) \<Rightarrow> (Inr (Fulfilled x), t))"

definition try_catch :: "'a io \<Rightarrow> (js_error \<Rightarrow> 'a io) \<Rightarrow> 'a io" where
  "try_catch m h =
     (case m of
        (Inl e, t) \<Rightarrow> (case h e of (r, t') \<Rightarrow> (r, t @ t'))
      | (Inr x, t) \<Rightarrow> (Inr x, t))"

definition program :: "inputs \<Rightarrow> remote \<Rightarrow> unit io" where
  "program env srv =
     try_catch (and_then (call_async (main env srv)) (\<lambda>_. ret ()))
       (\<lambda>error. emit (SetFailed (error_message error)))"

section \<open>A concrete run, for evaluation\<close>

definition inputs_of :: "(string \<times> string) list \<Rightarrow> inputs" where
  "inputs_of kvs nm = (case map_of kvs nm of None \<Rightarrow> [] | Some v \<Rightarrow> v)"

definition required_env :: "(string \<times> string) list" where
  "required_env =
     [(''access-token'', ''tok''), (''bucket-name'', ''bkt''), (''glossary-name'', ''gls''),
      (''glossary-file-name'', ''terms.csv''), (''project-id'', ''prj'')]"

definition operation :: "STATE \<Rightarrow> GoogleResponse" where
  "operation st =
     \<lparr>name = Some ''projects/prj/locations/us-central1/operations/op1'',
      metadata = Some \<lparr>md_type = ''CreateGlossaryMetadata'', md_name = ''gls'', state = st\<rparr>,
      error = (if st = FAILED
               then Some \<lparr>code = 3, message = ''bad input file'', em_status = None\<rparr> else None),
      done_field = None\<rparr>"

definition answer :: "nat \<Rightarrow> GoogleResponse \<Rightarrow> js_error + response" where
  "answer st body = Inr \<lparr>status = st, resp_text = ''raw body'', resp_json = Inr body\<rparr>"

text \<open>
  A remote service fixed by the status of its answer to the delete and to the create
  request, the body of its answer to the create request, and its answer to the read.
\<close>

definition service :: "nat \<Rightarrow> nat \<Rightarrow> GoogleResponse \<Rightarrow> nat \<Rightarrow> GoogleResponse \<Rightarrow> remote" where
  "service del_status create_status created get_status snapshot req =
     (if req_method req = ''DELETE'' then answer del_status (operation SUCCEEDED)
      else if req_method req = ''POST'' then answer create_status created
      else answer get_status snapshot)"

definition pair_env :: inputs where
  "pair_env =
     inputs_of (required_env @ [(''target-language'', ''en''), (''source-language'', ''fr'')])"

definition set_env :: inputs where
  "set_env = inputs_of (required_env @ [(''language-codes-set'', ''en,fr,de'')])"

definition wait_env :: "string \<Rightarrow> inputs" where
  "wait_env w = inputs_of (required_env @ [(''language-codes-set'', ''en,fr,de''), (''wait-time'', w)])"

definition ok_service :: remote where
  "ok_service = service 200 200 (operation RUNNING) 200 (operation SUCCEEDED)"

definition unnamed :: GoogleResponse where
  "unnamed = \<lparr>name = None, metadata = None, error = None, done_field = None\<rparr>"

section \<open>How an awaited computation composes\<close>

lemma fst_and_then: "fst (and_then m f) = (case fst m of Inl e \<Rightarrow> Inl e | Inr x \<Rightarrow> fst (f x))"
  by (simp add: and_then_def split: prod.splits sum.splits)

lemma snd_and_then: "snd (and_then m f) = snd m @ (case fst m of Inl e \<Rightarrow> [] | Inr x \<Rightarrow> snd (f x))"
  by (simp add: and_then_def split: prod.splits sum.splits)

lemma io_basic [simp]:
  "fst (ret x) = Inr x" "snd (ret x) = []"
  "fst (throw e) = Inl e" "snd (throw e) = []"
  "fst (emit ev) = Inr ()" "snd (emit ev) = [ev]"
  "fst (settle r) = r" "snd (settle r) = []"
  by (simp_all add: ret_def throw_def emit_def settle_def)

lemma fst_fetch: "fst (fetch srv req) = srv req"
  by (simp add: fetch_def fst_and_then)

lemma snd_fetch: "snd (fetch srv req) = [Fetch req]"
  by (simp add: fetch_def snd_and_then)

lemma fst_getInput:
  "fst (getInput env nm required) =
     (if required \<and> env nm = [] then Inl (Error (''Input required and not supplied: '' @ nm))
      else Inr (trim (env nm)))"
  by (simp add: getInput_def fst_and_then Let_def)

lemma snd_getInput: "snd (getInput env nm required) = [GetInput nm]"
  by (simp add: getInput_def snd_and_then Let_def)

lemma request_method [simp]:
  "req_method (delete_request p g a) = ''DELETE''"
  "req_method (create_request i p a) = ''POST''"
  "req_method (inspect_request n a) = ''GET''"
  by (simp_all add: delete_request_def create_request_def inspect_request_def)

lemma fst_deleteGlossary:
  "fst (deleteGlossary srv p g a) =
     (case srv (delete_request p g a) of
        Inl e \<Rightarrow> Inl e
      | Inr resp \<Rightarrow>
          if status resp = 404 then Inr ()
          else if status resp \<ge> 300 then Inl (Error ''delete request failed'')
          else Inr ())"
  by (simp add: deleteGlossary_def fst_and_then fst_fetch Let_def split: sum.splits)

lemma snd_deleteGlossary:
  "snd (deleteGlossary srv p g a) =
     Fetch (delete_request p g a) #
     (case srv (delete_request p g a) of
        Inl e \<Rightarrow> []
      | Inr resp \<Rightarrow>
          if status resp = 404
          then [Debug (''response message: '' @ resp_text resp),
                Warning (''glossary '' @ g @ '' is not found,continue to create'')]
          else if status resp \<ge> 300
          then [Debug (''error message:'' @ resp_text resp),
                ErrorLog (''delete glossary request failed with status:''
                  @ string_of_nat (status resp) @ '' message:''
                  @ JSON_stringify (JString (resp_text resp)))]
          else [Debug (''response message :'' @ resp_text resp)])"
  by (simp add: deleteGlossary_def snd_and_then fst_and_then fst_fetch snd_fetch Let_def split: sum.splits)

lemma fst_createGlossary:
  "fst (createGlossary srv i p a) =
     (case srv (create_request i p a) of
        Inl e \<Rightarrow> Inl e
      | Inr resp \<Rightarrow>
          if status resp \<ge> 300 then Inl (Error ''delete request failed'')
          else (case resp_json resp of Inl e \<Rightarrow> Inl e | Inr msg \<Rightarrow> Inr (name msg)))"
  by (simp add: createGlossary_def fst_and_then fst_fetch Let_def split: sum.splits)

lemma snd_createGlossary:
  "snd (createGlossary srv i p a) =
     Fetch (create_request i p a) #
     (case srv (create_request i p a) of
        Inl e \<Rightarrow> []
      | Inr resp \<Rightarrow>
          if status resp \<ge> 300
          then [Debug (''error message:'' @ resp_text resp),
                ErrorLog (''delete glossary request failed with status:''
                  @ string_of_nat (status resp) @ '' message:'' @ resp_text resp)]
          else [])"
  by (simp add: createGlossary_def snd_and_then fst_and_then fst_fetch snd_fetch Let_def split: sum.splits)

lemma fst_headOperation:
  "fst (headOperation srv n a) =
     (case srv (inspect_request n a) of
        Inl e \<Rightarrow> Inl e
      | Inr resp \<Rightarrow>
          if status resp \<ge> 300
          then (case resp_json resp of Inl e \<Rightarrow> Inl e | Inr msg \<Rightarrow> Inl (Error ''delete request failed''))
          else resp_json resp)"
  by (simp add: headOperation_def fst_and_then fst_fetch Let_def split: sum.splits)

lemma snd_headOperation:
  "snd (headOperation srv n a) =
     Fetch (inspect_request n a) #
     (case srv (inspect_request n a) of
        Inl e \<Rightarrow> []
      | Inr resp \<Rightarrow>
          if status resp \<ge> 300
          then (case resp_json resp of
                  Inl e \<Rightarrow> []
                | Inr msg \<Rightarrow>
                    [Debug ''error message:[object Object]'',
                     ErrorLog (''delete glossary request failed with status:''
                       @ string_of_nat (status resp) @ '' message:''
                       @ JSON_stringify (GoogleResponse_json msg))])
          else [])"
  by (simp add: headOperation_def snd_and_then fst_and_then fst_fetch snd_fetch Let_def split: sum.splits)


lemma fst_getRequiredInputs:
  "fst (getRequiredInputs env) =
     (if env ''bucket-name'' = [] then Inl (Error ''Input required and not supplied: bucket-name'')
      else if env ''glossary-name'' = [] then Inl (Error ''Input required and not supplied: glossary-name'')
      else if env ''glossary-file-name'' = [] then Inl (Error ''Input required and not supplied: glossary-file-name'')
      else if env ''project-id'' = [] then Inl (Error ''Input required and not supplied: project-id'')
      else Inr \<lparr>accessToken = trim (env ''access-token''), bucketName = trim (env ''bucket-name''),
          glossaryName = trim (env ''glossary-name''), glossaryFileName = trim (env ''glossary-file-name''),
          projectId = trim (env ''project-id'')\<rparr>)"
  by (simp add: getRequiredInputs_def fst_and_then fst_getInput)

lemma snd_getRequiredInputs:
  "snd (getRequiredInputs env) =
     GetInput ''access-token'' # GetInput ''bucket-name'' #
     (if env ''bucket-name'' = [] then []
      else GetInput ''glossary-name'' #
       (if env ''glossary-name'' = [] then []
        else GetInput ''glossary-file-name'' #
         (if env ''glossary-file-name'' = [] then []
          else [GetInput ''project-id''])))"
  by (simp add: getRequiredInputs_def snd_and_then fst_and_then fst_getInput snd_getInput)


lemma fst_pause [simp]: "fst (pause w) = Inr ()"
  by (simp add: pause_def fst_and_then)

lemma snd_pause:
  "snd (pause w) =
     (if w = 0 then []
      else [Info (''wait for '' @ string_of_int w @ '' secs...''), SetTimeout (w * 1000)])"
  by (simp add: pause_def snd_and_then)

lemma snd_input [simp]: "snd (input ty ri xs) = []"
  by (simp add: input_def Let_def split: CreateType.splits list.splits)

lemma fst_check:
  "fst (check msg) =
     (case metadata msg of
        None \<Rightarrow> Inl (Error ''failed to parse google response of metaData field'')
      | Some md \<Rightarrow> if state md = FAILED then Inl (Error ''create operation failed'') else Inr msg)"
  by (simp add: check_def fst_and_then split: option.splits)

lemma snd_check:
  "snd (check msg) =
     (case metadata msg of
        None \<Rightarrow> [ErrorLog ''failed to parse google response of metaData field'']
      | Some md \<Rightarrow>
          if state md = FAILED
          then [ErrorLog (''create operation has failed. message:''
                  @ (case error msg of None \<Rightarrow> ''undefined'' | Some e \<Rightarrow> message e))]
          else [])"
  by (simp add: check_def snd_and_then split: option.splits)

lemma io_eqI: "fst m = r \<Longrightarrow> snd m = t \<Longrightarrow> m = (r, t)"
  by auto

section \<open>The runs of the handler\<close>

text \<open>
  Every run of the handler ends at one of eight places: rejected for too many inputs, a
  required input missing, the delete failed, no input to split, the create failed, the
  create answered without a name, the read failed, or the read answered and the snapshot
  was checked. Each case gives the result and the whole trace.
\<close>

lemma handler_cases [case_names TooMany Missing DeleteFailed NoInput CreateFailed NoName InspectFailed Inspected]:
  fixes env srv xs
  defines "ty \<equiv> (if 1 < length xs then onePair else codesSet)"
  obtains
    (TooMany) "2 < length xs"
      "handler env srv xs = (Inl (Error ''input can not be more than 2 string object''), [])"
  | (Missing) e where "\<not> 2 < length xs" "fst (getRequiredInputs env) = Inl e"
      "handler env srv xs = (Inl e, snd (getRequiredInputs env))"
  | (DeleteFailed) ri e where "\<not> 2 < length xs" "fst (getRequiredInputs env) = Inr ri"
      "fst (deleteGlossary srv (projectId ri) (glossaryName ri) (accessToken ri)) = Inl e"
      "handler env srv xs =
         (Inl e, snd (getRequiredInputs env)
           @ Info (''try delete existed resource: '' @ projectId ri @ ''/'' @ glossaryName ri)
           # snd (deleteGlossary srv (projectId ri) (glossaryName ri) (accessToken ri)))"
  | (NoInput) ri e where "\<not> 2 < length xs" "fst (getRequiredInputs env) = Inr ri"
      "fst (deleteGlossary srv (projectId ri) (glossaryName ri) (accessToken ri)) = Inr ()"
      "fst (input ty ri xs) = Inl e"
      "handler env srv xs =
         (Inl e, snd (getRequiredInputs env)
           @ Info (''try delete existed resource: '' @ projectId ri @ ''/'' @ glossaryName ri)
           # snd (deleteGlossary srv (projectId ri) (glossaryName ri) (accessToken ri)))"
  | (CreateFailed) ri body e where "\<not> 2 < length xs" "fst (getRequiredInputs env) = Inr ri"
      "fst (deleteGlossary srv (projectId ri) (glossaryName ri) (accessToken ri)) = Inr ()"
      "fst (input ty ri xs) = Inr body"
      "fst (createGlossary srv body (projectId ri) (accessToken ri)) = Inl e"
      "handler env srv xs =
         (Inl e, snd (getRequiredInputs env)
           @ Info (''try delete existed resource: '' @ projectId ri @ ''/'' @ glossaryName ri)
           # snd (deleteGlossary srv (projectId ri) (glossaryName ri) (accessToken ri))
           @ Info (''try create glossary resource: '' @ projectId ri @ ''/'' @ glossaryName ri)
           # snd (createGlossary srv body (projectId ri) (accessToken ri)))"
  | (NoName) ri body nm where "\<not> 2 < length xs" "fst (getRequiredInputs env) = Inr ri"
      "fst (deleteGlossary srv (projectId ri) (glossaryName ri) (accessToken ri)) = Inr ()"
      "fst (input ty ri xs) = Inr body"
      "fst (createGlossary srv body (projectId ri) (accessToken ri)) = Inr nm" "falsy nm"
      "handler env srv xs =
         (Inl (Error ''failed to parse google response of name field''),
          snd (getRequiredInputs env)
           @ Info (''try delete existed resource: '' @ projectId ri @ ''/'' @ glossaryName ri)
           # snd (deleteGlossary srv (projectId ri) (glossaryName ri) (accessToken ri))
           @ Info (''try create glossary resource: '' @ projectId ri @ ''/'' @ glossaryName ri)
           # snd (createGlossary srv body (projectId ri) (accessToken ri))
           @ [ErrorLog ''failed to parse google response of name field''])"
  | (InspectFailed) ri body nm e where "\<not> 2 < length xs" "fst (getRequiredInputs env) = Inr ri"
      "fst (deleteGlossary srv (projectId ri) (glossaryName ri) (accessToken ri)) = Inr ()"
      "fst (input ty ri xs) = Inr body"
      "fst (createGlossary srv body (projectId ri) (accessToken ri)) = Inr nm" "\<not> falsy nm"
      "fst (headOperation srv (the nm) (accessToken ri)) = Inl e"
      "handler env srv xs =
         (Inl e,
          snd (getRequiredInputs env)
           @ Info (''try delete existed resource: '' @ projectId ri @ ''/'' @ glossaryName ri)
           # snd (deleteGlossary srv (projectId ri) (glossaryName ri) (accessToken ri))
           @ Info (''try create glossary resource: '' @ projectId ri @ ''/'' @ glossaryName ri)
           # snd (createGlossary srv body (projectId ri) (accessToken ri))
           @ GetInput ''wait-time'' # snd (pause (waitTime (trim (env ''wait-time''))))
           @ Info (''try head operation: '' @ the nm)
           # snd (headOperation srv (the nm) (accessToken ri)))"
  | (Inspected) ri body nm msg where "\<not> 2 < length xs" "fst (getRequiredInputs env) = Inr ri"
      "fst (deleteGlossary srv (projectId ri) (glossaryName ri) (accessToken ri)) = Inr ()"
      "fst (input ty ri xs) = Inr body"
      "fst (createGlossary srv body (projectId ri) (accessToken ri)) = Inr nm" "\<not> falsy nm"
      "fst (headOperation srv (the nm) (accessToken ri)) = Inr msg"
      "handler env srv xs =
         (fst (check msg),
          snd (getRequiredInputs env)
           @ Info (''try delete existed resource: '' @ projectId ri @ ''/'' @ glossaryName ri)
           # snd (deleteGlossary srv (projectId ri) (glossaryName ri) (accessToken ri))
           @ Info (''try create glossary resource: '' @ projectId ri @ ''/'' @ glossaryName ri)
           # snd (createGlossary srv body (projectId ri) (accessToken ri))
           @ GetInput ''wait-time'' # snd (pause (waitTime (trim (env ''wait-time''))))
           @ Info (''try head operation: '' @ the nm)
           # snd (headOperation srv (the nm) (accessToken ri))
           @ snd (check msg))"
proof (cases "2 < length xs")
  case True
  then show ?thesis
    by (intro TooMany) (simp_all add: handler_def throw_def)
next
  case len: False
  show ?thesis
  proof (cases "fst (getRequiredInputs env)")
    case (Inl e)
    with len show ?thesis
      by (intro Missing[of e]) (simp_all add: handler_def Let_def fst_and_then snd_and_then io_eqI)
  next
    case ri: (Inr ri)
    show ?thesis
    proof (cases "fst (deleteGlossary srv (projectId ri) (glossaryName ri) (accessToken ri))")
      case (Inl e)
      with len ri show ?thesis
        by (intro DeleteFailed[of ri e])
          (simp_all add: handler_def Let_def fst_and_then snd_and_then io_eqI)
    next
      case del: (Inr u)
      show ?thesis
      proof (cases "fst (input ty ri xs)")
        case (Inl e)
        with len ri del show ?thesis
          by (intro NoInput[of ri e])
            (simp_all add: handler_def Let_def fst_and_then snd_and_then io_eqI ty_def)
      next
        case body: (Inr body)
        show ?thesis
        proof (cases "fst (createGlossary srv body (projectId ri) (accessToken ri))")
          case (Inl e)
          with len ri del body show ?thesis
            by (intro CreateFailed[of ri body e])
              (simp_all add: handler_def Let_def fst_and_then snd_and_then io_eqI ty_def)
        next
          case nm: (Inr nm)
          show ?thesis
          proof (cases "falsy nm")
            case True
            with len ri del body nm show ?thesis
              by (intro NoName[of ri body nm])
                (simp_all add: handler_def Let_def fst_and_then snd_and_then io_eqI ty_def)
          next
            case named: False
            show ?thesis
            proof (cases "fst (headOperation srv (the nm) (accessToken ri))")
              case (Inl e)
              with len ri del body nm named show ?thesis
                by (intro InspectFailed[of ri body nm e])
                  (simp_all add: handler_def Let_def fst_and_then snd_and_then io_eqI ty_def
                    fst_getInput snd_getInput)
            next
              case (Inr msg)
              with len ri del body nm named show ?thesis
                by (intro Inspected[of ri body nm msg])
                  (simp_all add: handler_def Let_def fst_and_then snd_and_then io_eqI ty_def
                    fst_getInput snd_getInput)
            qed
          qed
        qed
      qed
    qed
  qed
qed

section \<open>What each stage contributes to the projections of a trace\<close>

lemma calls_append [simp]: "calls (t @ u) = calls t @ calls u"
  by (induction t) (simp_all split: option.splits)

lemma reads_append [simp]: "reads (t @ u) = reads t @ reads u"
  by (induction t) (simp_all split: option.splits)

lemma requests_append [simp]: "requests (t @ u) = requests t @ requests u"
  by (induction t rule: requests.induct) simp_all

lemma requests_stage [simp]:
  "requests (snd (getRequiredInputs env)) = []"
  "requests (snd (deleteGlossary srv p g a)) = [delete_request p g a]"
  "requests (snd (createGlossary srv i p a)) = [create_request i p a]"
  "requests (snd (headOperation srv n a)) = [inspect_request n a]"
  "requests (snd (pause w)) = []"
  "requests (snd (check msg)) = []"
  by (simp_all add: snd_getRequiredInputs snd_deleteGlossary snd_createGlossary snd_headOperation
      snd_pause snd_check split: sum.splits option.splits)

lemma calls_stage [simp]:
  "calls (snd (getRequiredInputs env)) = []"
  "calls (snd (deleteGlossary srv p g a)) = [Net ''DELETE'']"
  "calls (snd (createGlossary srv i p a)) = [Net ''POST'']"
  "calls (snd (headOperation srv n a)) = [Net ''GET'']"
  "calls (snd (pause w)) = (if w = 0 then [] else [Timer (w * 1000)])"
  "calls (snd (check msg)) = []"
  by (simp_all add: snd_getRequiredInputs snd_deleteGlossary snd_createGlossary snd_headOperation
      snd_pause snd_check split: sum.splits option.splits)

lemma reads_required:
  "fst (getRequiredInputs env) = Inr ri \<Longrightarrow>
   reads (snd (getRequiredInputs env)) =
     [''access-token'', ''bucket-name'', ''glossary-name'', ''glossary-file-name'', ''project-id'']"
  by (simp add: fst_getRequiredInputs snd_getRequiredInputs split: if_splits)

lemma reads_stage [simp]:
  "reads (snd (deleteGlossary srv p g a)) = []"
  "reads (snd (createGlossary srv i p a)) = []"
  "reads (snd (headOperation srv n a)) = []"
  "reads (snd (pause w)) = []"
  "reads (snd (check msg)) = []"
  by (simp_all add: snd_deleteGlossary snd_createGlossary snd_headOperation
      snd_pause snd_check split: sum.splits option.splits)

section \<open>What reaching a request tells about a run\<close>

text \<open>
  The hypotheses of the claims name a request of the run and the answer it got. These
  lemmas turn such a hypothesis into the case of the run it belongs to.
\<close>

lemma waitTime_eq:
  "waitTime raw = (case parseInt raw of None \<Rightarrow> 0 | Some v \<Rightarrow> if v > 300 then 300 else v)"
  by (simp add: waitTime_def Let_def split: option.splits)

lemma inspect_reached_calls:
  assumes "g \<in> set (requests (snd (handler env srv inputsRaw)))" and "req_method g = ''GET''"
  shows "calls (snd (handler env srv inputsRaw))
    = [Net ''DELETE'', Net ''POST'']
      @ (if waitTime (trim (env ''wait-time'')) = 0 then []
         else [Timer (waitTime (trim (env ''wait-time'')) * 1000)])
      @ [Net ''GET'']"
  using assms
  by (cases rule: handler_cases[of inputsRaw env srv]) auto

lemma inspect_reached_trace:
  assumes "g \<in> set (requests (snd (handler env srv inputsRaw)))" and "req_method g = ''GET''"
  shows "\<exists>before after. snd (handler env srv inputsRaw)
    = before @ GetInput ''wait-time'' # snd (pause (waitTime (trim (env ''wait-time'')))) @ after"
  using assms
proof (cases rule: handler_cases[of inputsRaw env srv])
  case (InspectFailed ri body nm e)
  then show ?thesis by (metis append.assoc append_Cons snd_conv)
next
  case (Inspected ri body nm msg)
  then show ?thesis by (metis append.assoc append_Cons snd_conv)
qed auto

lemma outputs_append [simp]: "outputs (t @ u) = outputs t @ outputs u"
  by (induction t rule: outputs.induct) simp_all

lemma outputs_stage [simp]:
  "outputs (snd (getRequiredInputs env)) = []"
  "outputs (snd (deleteGlossary srv p g a)) = []"
  "outputs (snd (createGlossary srv i p a)) = []"
  "outputs (snd (headOperation srv n a)) = []"
  "outputs (snd (pause w)) = []"
  "outputs (snd (check msg)) = []"
  by (simp_all add: snd_getRequiredInputs snd_deleteGlossary snd_createGlossary snd_headOperation
      snd_pause snd_check split: sum.splits option.splits)

lemma outputs_handler [simp]: "outputs (snd (handler env srv xs)) = []"
  by (cases rule: handler_cases[of xs env srv]) simp_all

lemma required_inputs_resolved:
  assumes "fst (getRequiredInputs env) = Inr ri"
  shows "projectId ri = trim (env ''project-id'')" and "glossaryName ri = trim (env ''glossary-name'')"
    and "accessToken ri = trim (env ''access-token'')" and "bucketName ri = trim (env ''bucket-name'')"
    and "glossaryFileName ri = trim (env ''glossary-file-name'')"
  using assms by (auto simp add: fst_getRequiredInputs split: if_splits)

lemma fst_input_nonempty: "xs \<noteq> [] \<Longrightarrow> fst (input ty ri xs) \<noteq> Inl e"
  by (cases xs; cases ty) (simp_all add: input_def Let_def)

lemma fst_input_empty:
  "fst (input (if 1 < length [] then onePair else codesSet) ri [])
     = Inl (TypeError ''Cannot read properties of undefined (reading 'split')'')"
  by (simp add: input_def)

lemma delete_answered:
  assumes "d \<in> set (requests (snd (handler env srv xs)))" and "req_method d = ''DELETE''"
    and "srv d = Inr resp"
  shows "d = delete_request (trim (env ''project-id'')) (trim (env ''glossary-name''))
               (trim (env ''access-token''))"
    and "status resp = 404 \<Longrightarrow> xs \<noteq> []
           \<Longrightarrow> take 2 (calls (snd (handler env srv xs))) = [Net ''DELETE'', Net ''POST'']"
    and "status resp \<noteq> 404 \<Longrightarrow> 300 \<le> status resp
           \<Longrightarrow> fst (handler env srv xs) = Inl (Error ''delete request failed'')
             \<and> calls (snd (handler env srv xs)) = [Net ''DELETE'']"
proof -
  show d: "d = delete_request (trim (env ''project-id'')) (trim (env ''glossary-name''))
               (trim (env ''access-token''))"
    using assms(1,2)
    by (cases rule: handler_cases[of xs env srv]) (auto simp add: required_inputs_resolved)
  show "take 2 (calls (snd (handler env srv xs))) = [Net ''DELETE'', Net ''POST'']"
    if "status resp = 404" "xs \<noteq> []"
    using assms that d fst_input_nonempty[OF that(2)]
    by (cases rule: handler_cases[of xs env srv])
      (auto simp add: required_inputs_resolved fst_deleteGlossary)
  show "fst (handler env srv xs) = Inl (Error ''delete request failed'')
             \<and> calls (snd (handler env srv xs)) = [Net ''DELETE'']"
    if "status resp \<noteq> 404" "300 \<le> status resp"
    using assms that d
    by (cases rule: handler_cases[of xs env srv])
      (auto simp add: required_inputs_resolved fst_deleteGlossary)
qed

lemma head_answer:
  "srv (inspect_request n a) = Inr resp \<Longrightarrow> status resp < 300
     \<Longrightarrow> fst (headOperation srv n a) = resp_json resp"
  by (simp add: fst_headOperation)

lemma inspect_answered:
  assumes "g \<in> set (requests (snd (handler env srv xs)))" and "req_method g = ''GET''"
    and "srv g = Inr resp" and "status resp < 300" and "resp_json resp = Inr msg"
  shows "fst (handler env srv xs) = fst (check msg)"
    and "\<exists>before. snd (handler env srv xs) = before @ snd (check msg)"
proof -
  show "fst (handler env srv xs) = fst (check msg)"
    using assms
    by (cases rule: handler_cases[of xs env srv]) (auto simp add: head_answer)
  show "\<exists>before. snd (handler env srv xs) = before @ snd (check msg)"
    using assms
  proof (cases rule: handler_cases[of xs env srv])
    case (Inspected ri body nm msg')
    with assms have "msg' = msg"
      by (auto simp add: head_answer)
    with Inspected(8) show ?thesis
      by (simp del: append_assoc add: append_assoc[symmetric])
  qed (auto simp add: head_answer)
qed

section \<open>The runs of the program\<close>

lemma fst_report [simp]: "fst (report msg) = Inr ()"
  by (simp add: report_def fst_and_then)

lemma snd_report:
  "snd (report msg) =
     (if map_option state (metadata msg) = Some RUNNING
      then [SetOutput ''operation-name'' (name msg)] else [])
     @ [Info (''update is ''
         @ (case metadata msg of None \<Rightarrow> ''undefined'' | Some md \<Rightarrow> STATE_string (state md)))]"
  by (simp add: report_def snd_and_then)

lemma report_projections [simp]:
  "requests (snd (report msg)) = []"
  "calls (snd (report msg)) =
     (if map_option state (metadata msg) = Some RUNNING
      then [Output ''operation-name'' (name msg)] else [])"
  "outputs (snd (report msg)) =
     (if map_option state (metadata msg) = Some RUNNING
      then [(''operation-name'', name msg)] else [])"
  by (simp_all add: snd_report)

lemma main_cases [case_names Dispatched Rejected]:
  obtains
    (Dispatched) xs pre where
      "xs = [trim (env ''target-language''), trim (env ''source-language'')]
        \<or> xs = [trim (env ''language-codes-set'')]"
      "requests pre = []" "calls pre = []" "outputs pre = []"
      "fst (main env srv) = (case fst (handler env srv xs) of Inl e \<Rightarrow> Inl e | Inr m \<Rightarrow> Inr ())"
      "snd (main env srv) =
         pre @ snd (handler env srv xs)
         @ (case fst (handler env srv xs) of Inl e \<Rightarrow> [] | Inr m \<Rightarrow> snd (report m))"
  | (Rejected)
      "main env srv =
         (Inl (Error ''Not appropriate language code input setting''),
          [GetInput ''target-language'', GetInput ''source-language'',
           GetInput ''language-codes-set''])"
proof (cases "trim (env ''target-language'') \<noteq> [] \<and> trim (env ''source-language'') \<noteq> []")
  case True
  show ?thesis
  proof (rule Dispatched)
    show "snd (main env srv) =
         [GetInput ''target-language'', GetInput ''source-language'',
          GetInput ''language-codes-set'',
          Info (''detected sourceLanguage: '' @ trim (env ''source-language'')
                @ '', targetLanguage '' @ trim (env ''target-language'')),
          Info ''create one pair glossary resource'']
         @ snd (handler env srv [trim (env ''target-language''), trim (env ''source-language'')])
         @ (case fst (handler env srv [trim (env ''target-language''), trim (env ''source-language'')])
            of Inl e \<Rightarrow> [] | Inr m \<Rightarrow> snd (report m))"
      using True by (simp add: main_def fst_and_then snd_and_then fst_getInput snd_getInput)
    show "fst (main env srv) =
        (case fst (handler env srv [trim (env ''target-language''), trim (env ''source-language'')])
         of Inl e \<Rightarrow> Inl e | Inr m \<Rightarrow> Inr ())"
      using True
      by (simp add: main_def fst_and_then snd_and_then fst_getInput snd_getInput
          split: sum.splits)
  qed simp_all
next
  case noPair: False
  show ?thesis
  proof (cases "trim (env ''language-codes-set'') \<noteq> []")
    case True
    show ?thesis
    proof (rule Dispatched)
      show "snd (main env srv) =
         [GetInput ''target-language'', GetInput ''source-language'',
          GetInput ''language-codes-set'',
          Info (''detected language codes set: '' @ trim (env ''language-codes-set'')),
          Info ''create multi-language glossary resource'']
         @ snd (handler env srv [trim (env ''language-codes-set'')])
         @ (case fst (handler env srv [trim (env ''language-codes-set'')])
            of Inl e \<Rightarrow> [] | Inr m \<Rightarrow> snd (report m))"
        using True noPair
        by (auto simp add: main_def fst_and_then snd_and_then fst_getInput snd_getInput)
      show "fst (main env srv) =
        (case fst (handler env srv [trim (env ''language-codes-set'')])
         of Inl e \<Rightarrow> Inl e | Inr m \<Rightarrow> Inr ())"
        using True noPair
        by (auto simp add: main_def fst_and_then snd_and_then fst_getInput snd_getInput
            split: sum.splits)
    qed simp_all
  next
    case False
    with noPair show ?thesis
      by (intro Rejected)
        (auto simp add: main_def fst_and_then snd_and_then fst_getInput snd_getInput
          intro!: io_eqI)
  qed
qed

lemma take2_append: "take 2 xs = [a, b] \<Longrightarrow> take 2 (xs @ ys) = [a, b]"
  by (cases xs; cases "tl xs") auto

lemma requests_main:
  obtains xs where "xs \<noteq> []" "requests (snd (main env srv)) = requests (snd (handler env srv xs))"
      "fst (main env srv) = (case fst (handler env srv xs) of Inl e \<Rightarrow> Inl e | Inr m \<Rightarrow> Inr ())"
      "calls (snd (main env srv)) = calls (snd (handler env srv xs))
         @ (case fst (handler env srv xs) of Inl e \<Rightarrow> [] | Inr m \<Rightarrow> calls (snd (report m)))"
  | "requests (snd (main env srv)) = []"
proof (cases rule: main_cases[of env srv])
  case (Dispatched xs pre)
  have "xs \<noteq> []" using Dispatched(1) by auto
  moreover have "requests (snd (main env srv)) = requests (snd (handler env srv xs))"
    using Dispatched(2,6) by (simp split: sum.splits)
  moreover have "calls (snd (main env srv)) = calls (snd (handler env srv xs))
         @ (case fst (handler env srv xs) of Inl e \<Rightarrow> [] | Inr m \<Rightarrow> calls (snd (report m)))"
    using Dispatched(3,6) by (simp split: sum.splits)
  ultimately show ?thesis using that(1) Dispatched(5) by blast
next
  case Rejected
  then show ?thesis using that(2) by simp
qed

lemma input_body:
  assumes "fst (input (if 1 < length xs then onePair else codesSet) ri xs) = Inr body"
    and "\<not> 2 < length xs"
  shows "(length xs = 1 \<and> body = JSON_stringify (JObject
            [(''name'', JString (glossaryFullName ri)),
             (''languageCodesSet'', JObject
                [(''languageCodes'', JArray (map JString (js_split CHR '','' (xs ! 0))))]),
             (''inputConfig'', JObject
                [(''gcsSource'', JObject [(''inputUri'', JString (glossaryFilePath ri))])])]))
       \<or> (length xs = 2 \<and> body = JSON_stringify (JObject
            [(''name'', JString (glossaryFullName ri)),
             (''languagePair'', JObject
                [(''sourceLanguageCode'', JString (xs ! 0)),
                 (''targetLanguageCode'', JString (xs ! 1))]),
             (''inputConfig'', JObject
                [(''gcsSource'', JObject [(''inputUri'', JString (glossaryFilePath ri))])])]))"
proof (cases xs)
  case Nil
  with assms show ?thesis by (simp add: input_def)
next
  case (Cons x ys)
  show ?thesis
  proof (cases ys)
    case Nil
    with Cons assms show ?thesis by (simp add: input_def Let_def)
  next
    case (Cons y zs)
    with \<open>xs = x # ys\<close> assms have "zs = []" by simp
    with Cons \<open>xs = x # ys\<close> assms show ?thesis by (simp add: input_def Let_def)
  qed
qed

lemma create_sent:
  assumes "c \<in> set (requests (snd (handler env srv xs)))" and "req_method c = ''POST''"
  obtains ri body where "fst (getRequiredInputs env) = Inr ri"
    and "fst (input (if 1 < length xs then onePair else codesSet) ri xs) = Inr body"
    and "\<not> 2 < length xs" and "c = create_request body (projectId ri) (accessToken ri)"
  using assms
  by (cases rule: handler_cases[of xs env srv]) auto

lemma failures_append [simp]: "failures (t @ u) = failures t @ failures u"
  by (induction t rule: failures.induct) simp_all

lemma failures_stage [simp]:
  "failures (snd (getRequiredInputs env)) = []"
  "failures (snd (deleteGlossary srv p g a)) = []"
  "failures (snd (createGlossary srv i p a)) = []"
  "failures (snd (headOperation srv n a)) = []"
  "failures (snd (pause w)) = []"
  "failures (snd (check msg)) = []"
  "failures (snd (report msg)) = []"
  by (simp_all add: snd_getRequiredInputs snd_deleteGlossary snd_createGlossary snd_headOperation
      snd_pause snd_check snd_report split: sum.splits option.splits)

lemma failures_handler [simp]: "failures (snd (handler env srv xs)) = []"
  by (cases rule: handler_cases[of xs env srv]) simp_all

lemma failures_main [simp]: "failures (snd (main env srv)) = []"
  by (simp add: main_def snd_and_then fst_and_then fst_getInput snd_getInput split: sum.splits)

lemma program_result: "program env srv = (Inr (), snd (main env srv))"
  by (cases "main env srv"; cases "fst (main env srv)")
    (simp_all add: program_def try_catch_def call_async_def and_then_def ret_def)

section \<open>The claims\<close>

text \<open>
  Claim C6. When the create request is answered with a status below 300 and a decoded
  body whose \<^verbatim>\<open>name\<close> is missing (or empty), the handler throws the error
  \<^verbatim>\<open>failed to parse google response of name field\<close>. Nothing follows the create call: the
  network saw the DELETE and the POST only, the timer was not set, and the only inputs
  read are the five of \<^verbatim>\<open>getRequiredInputs\<close>, so \<^verbatim>\<open>wait-time\<close> was not read.
\<close>

theorem create_without_name_fails_before_wait:
  assumes "c \<in> set (requests (snd (handler env srv inputsRaw)))" and "req_method c = ''POST''"
    and "srv c = Inr resp" and "status resp < 300" and "resp_json resp = Inr body"
    and "falsy (name body)"
  shows "fst (handler env srv inputsRaw)
           = Inl (Error ''failed to parse google response of name field'')
    \<and> calls (snd (handler env srv inputsRaw)) = [Net ''DELETE'', Net ''POST'']
    \<and> reads (snd (handler env srv inputsRaw))
           = [''access-token'', ''bucket-name'', ''glossary-name'', ''glossary-file-name'',
              ''project-id'']"
  using assms
  by (cases rule: handler_cases[of inputsRaw env srv])
    (auto simp add: fst_createGlossary reads_required)

text \<open>
  A run of it: the delete is answered 404, the create 200 with a body without a name.
\<close>

theorem create_without_name_fails_before_wait_witness:
  "requests (snd (handler pair_env (service 404 200 unnamed 200 (operation RUNNING))
       [''en'', ''fr''])) ! 1
     \<in> set (requests (snd (handler pair_env (service 404 200 unnamed 200 (operation RUNNING))
           [''en'', ''fr''])))
   \<and> req_method (requests (snd (handler pair_env
         (service 404 200 unnamed 200 (operation RUNNING)) [''en'', ''fr''])) ! 1) = ''POST''
   \<and> service 404 200 unnamed 200 (operation RUNNING)
        (requests (snd (handler pair_env (service 404 200 unnamed 200 (operation RUNNING))
           [''en'', ''fr''])) ! 1)
       = Inr \<lparr>status = 200, resp_text = ''raw body'', resp_json = Inr unnamed\<rparr>
   \<and> falsy (name unnamed)
   \<and> fst (handler pair_env (service 404 200 unnamed 200 (operation RUNNING)) [''en'', ''fr''])
        = Inl (Error ''failed to parse google response of name field'')
   \<and> calls (snd (handler pair_env (service 404 200 unnamed 200 (operation RUNNING))
         [''en'', ''fr'']))
        = [Net ''DELETE'', Net ''POST'']
   \<and> reads (snd (handler pair_env (service 404 200 unnamed 200 (operation RUNNING))
         [''en'', ''fr'']))
        = [''access-token'', ''bucket-name'', ''glossary-name'', ''glossary-file-name'',
           ''project-id'']"
proof -
  let ?srv = "service 404 200 unnamed 200 (operation RUNNING)"
  let ?c = "requests (snd (handler pair_env ?srv [''en'', ''fr''])) ! 1"
  have h1: "?c \<in> set (requests (snd (handler pair_env ?srv [''en'', ''fr''])))"
    by code_simp
  have h2: "req_method ?c = ''POST''"
    by code_simp
  have h3: "?srv ?c = Inr \<lparr>status = 200, resp_text = ''raw body'', resp_json = Inr unnamed\<rparr>"
    by code_simp
  have h6: "falsy (name unnamed)"
    by code_simp
  from create_without_name_fails_before_wait[OF h1 h2 h3 _ _ h6]
  show ?thesis using h1 h2 h3 h6 by simp
qed

text \<open>
  Claim C4, as the code has it. The wait time is decided by what \<^verbatim>\<open>parseInt\<close> reads from
  the trimmed input \<^verbatim>\<open>wait-time\<close>: zero when it reads no integer (the input is absent, or
  starts with no digit, as \<^verbatim>\<open>abc\<close>), 300 when the integer it reads exceeds 300, and that
  integer otherwise. In every run that reaches the read request the calls are the DELETE,
  the POST, then the timer once with a thousand times the wait time when it is not zero,
  then the GET.
\<close>

theorem wait_time_clamped_and_paused_once:
  assumes "g \<in> set (requests (snd (handler env srv inputsRaw)))" and "req_method g = ''GET''"
  shows "waitTime (trim (env ''wait-time''))
      = (case parseInt (trim (env ''wait-time'')) of
           None \<Rightarrow> 0
         | Some v \<Rightarrow> if v > 300 then 300 else v)
    \<and> calls (snd (handler env srv inputsRaw))
      = [Net ''DELETE'', Net ''POST'']
        @ (if waitTime (trim (env ''wait-time'')) = 0 then []
           else [Timer (waitTime (trim (env ''wait-time'')) * 1000)])
        @ [Net ''GET'']"
  using inspect_reached_calls[OF assms] by (simp add: waitTime_eq)

text \<open>
  Runs of it with the inputs \<^verbatim>\<open>400\<close>, \<^verbatim>\<open>120\<close>, \<^verbatim>\<open>abc\<close> and with no \<^verbatim>\<open>wait-time\<close> at all.
\<close>

theorem wait_time_clamped_and_paused_once_witness:
  "requests (snd (handler (wait_env ''400'') ok_service [''en,fr,de''])) ! 2
     \<in> set (requests (snd (handler (wait_env ''400'') ok_service [''en,fr,de''])))
   \<and> req_method (requests (snd (handler (wait_env ''400'') ok_service [''en,fr,de''])) ! 2)
       = ''GET''
   \<and> parseInt (trim (wait_env ''400'' ''wait-time'')) = Some 400
   \<and> waitTime (trim (wait_env ''400'' ''wait-time'')) = 300
   \<and> calls (snd (handler (wait_env ''400'') ok_service [''en,fr,de'']))
       = [Net ''DELETE'', Net ''POST'', Timer 300000, Net ''GET'']
   \<and> parseInt (trim (wait_env ''120'' ''wait-time'')) = Some 120
   \<and> calls (snd (handler (wait_env ''120'') ok_service [''en,fr,de'']))
       = [Net ''DELETE'', Net ''POST'', Timer 120000, Net ''GET'']
   \<and> parseInt (trim (wait_env ''abc'' ''wait-time'')) = None
   \<and> calls (snd (handler (wait_env ''abc'') ok_service [''en,fr,de'']))
       = [Net ''DELETE'', Net ''POST'', Net ''GET'']
   \<and> parseInt (trim (set_env ''wait-time'')) = None
   \<and> calls (snd (handler set_env ok_service [''en,fr,de'']))
       = [Net ''DELETE'', Net ''POST'', Net ''GET'']"
proof -
  let ?xs = "[''en,fr,de'']"
  have a1: "requests (snd (handler (wait_env ''400'') ok_service ?xs)) ! 2
      \<in> set (requests (snd (handler (wait_env ''400'') ok_service ?xs)))"
    by code_simp
  have a2: "req_method (requests (snd (handler (wait_env ''400'') ok_service ?xs)) ! 2) = ''GET''"
    by code_simp
  have a3: "parseInt (trim (wait_env ''400'' ''wait-time'')) = Some 400"
    by code_simp
  have b1: "requests (snd (handler (wait_env ''120'') ok_service ?xs)) ! 2
      \<in> set (requests (snd (handler (wait_env ''120'') ok_service ?xs)))"
    by code_simp
  have b2: "req_method (requests (snd (handler (wait_env ''120'') ok_service ?xs)) ! 2) = ''GET''"
    by code_simp
  have b3: "parseInt (trim (wait_env ''120'' ''wait-time'')) = Some 120"
    by code_simp
  have c1: "requests (snd (handler (wait_env ''abc'') ok_service ?xs)) ! 2
      \<in> set (requests (snd (handler (wait_env ''abc'') ok_service ?xs)))"
    by code_simp
  have c2: "req_method (requests (snd (handler (wait_env ''abc'') ok_service ?xs)) ! 2) = ''GET''"
    by code_simp
  have c3: "parseInt (trim (wait_env ''abc'' ''wait-time'')) = None"
    by code_simp
  have d1: "requests (snd (handler set_env ok_service ?xs)) ! 2
      \<in> set (requests (snd (handler set_env ok_service ?xs)))"
    by code_simp
  have d2: "req_method (requests (snd (handler set_env ok_service ?xs)) ! 2) = ''GET''"
    by code_simp
  have d3: "parseInt (trim (set_env ''wait-time'')) = None"
    by code_simp
  show ?thesis
    using a1 a2 a3 b3 c3 d3
      wait_time_clamped_and_paused_once[OF a1 a2]
      wait_time_clamped_and_paused_once[OF b1 b2]
      wait_time_clamped_and_paused_once[OF c1 c2]
      wait_time_clamped_and_paused_once[OF d1 d2]
    by simp
qed

text \<open>
  Claim C4 as it is worded gives zero for every input that is not a valid integer. The
  input \<^verbatim>\<open>12abc\<close> is not one, and \<^verbatim>\<open>parseInt\<close> reads the 12 at its start: the run waits
  twelve seconds.
\<close>

theorem wait_time_prefix_counterexample:
  "parseInt ''12abc'' = Some 12
   \<and> waitTime (trim (wait_env ''12abc'' ''wait-time'')) = 12
   \<and> waitTime (trim (wait_env ''12abc'' ''wait-time'')) \<noteq> 0
   \<and> calls (snd (handler (wait_env ''12abc'') ok_service [''en,fr,de'']))
       = [Net ''DELETE'', Net ''POST'', Timer 12000, Net ''GET'']"
  by code_simp

text \<open>
  Claim C10. When \<^verbatim>\<open>parseInt\<close> reads a negative integer \<open>n\<close> from the input
  \<^verbatim>\<open>wait-time\<close>, the wait time is \<open>n\<close>: nothing clamps it from below. It is not zero, so
  the run logs the wait and sets the timer with \<open>n * 1000\<close> milliseconds, between the POST
  and the GET.
\<close>

theorem negative_wait_time_passes_through:
  assumes "g \<in> set (requests (snd (handler env srv inputsRaw)))" and "req_method g = ''GET''"
    and "parseInt (trim (env ''wait-time'')) = Some n" and "n < 0"
  shows "waitTime (trim (env ''wait-time'')) = n
    \<and> calls (snd (handler env srv inputsRaw))
      = [Net ''DELETE'', Net ''POST'', Timer (n * 1000), Net ''GET'']
    \<and> (\<exists>before after. snd (handler env srv inputsRaw)
         = before @ [GetInput ''wait-time'', Info (''wait for '' @ string_of_int n @ '' secs...''),
                     SetTimeout (n * 1000)] @ after)"
proof -
  have w: "waitTime (trim (env ''wait-time'')) = n"
    using assms(3,4) by (simp add: waitTime_eq)
  moreover have "n \<noteq> 0" using assms(4) by simp
  ultimately show ?thesis
    using inspect_reached_calls[OF assms(1,2)] inspect_reached_trace[OF assms(1,2)]
    by (simp add: snd_pause)
qed

text \<open>A run of it with the input \<^verbatim>\<open>-5\<close>.\<close>

theorem negative_wait_time_passes_through_witness:
  "requests (snd (handler (wait_env ''-5'') ok_service [''en,fr,de''])) ! 2
     \<in> set (requests (snd (handler (wait_env ''-5'') ok_service [''en,fr,de''])))
   \<and> req_method (requests (snd (handler (wait_env ''-5'') ok_service [''en,fr,de''])) ! 2)
       = ''GET''
   \<and> parseInt (trim (wait_env ''-5'' ''wait-time'')) = Some (- 5)
   \<and> waitTime (trim (wait_env ''-5'' ''wait-time'')) = - 5
   \<and> calls (snd (handler (wait_env ''-5'') ok_service [''en,fr,de'']))
       = [Net ''DELETE'', Net ''POST'', Timer (- 5000), Net ''GET'']"
proof -
  let ?xs = "[''en,fr,de'']"
  have a1: "requests (snd (handler (wait_env ''-5'') ok_service ?xs)) ! 2
      \<in> set (requests (snd (handler (wait_env ''-5'') ok_service ?xs)))"
    by code_simp
  have a2: "req_method (requests (snd (handler (wait_env ''-5'') ok_service ?xs)) ! 2) = ''GET''"
    by code_simp
  have a3: "parseInt (trim (wait_env ''-5'' ''wait-time'')) = Some (- 5)"
    by code_simp
  have a4: "(- 5 :: int) < 0"
    by simp
  show ?thesis
    using a1 a2 a3 negative_wait_time_passes_through[OF a1 a2 a3 a4] by simp
qed

text \<open>
  Claim C5. In every run of the program that sends the delete request and gets an answer:
  with status 404 \<^verbatim>\<open>deleteGlossary\<close> returns, having logged the body and a warning, and
  the next call of the run is the POST of the create; with any other status from 300 on
  it throws \<^verbatim>\<open>delete request failed\<close>, the run fails with that error, and the DELETE is
  the only call of the run. The program calls the handler with one or two inputs; the
  handler called with none is claim C9.
\<close>

theorem delete_not_found_is_success_other_failures_stop:
  assumes "d \<in> set (requests (snd (main env srv)))" and "req_method d = ''DELETE''"
    and "srv d = Inr resp"
  shows "d = delete_request (trim (env ''project-id'')) (trim (env ''glossary-name''))
               (trim (env ''access-token''))
    \<and> (status resp = 404 \<longrightarrow>
          deleteGlossary srv (trim (env ''project-id'')) (trim (env ''glossary-name''))
              (trim (env ''access-token''))
            = (Inr (), [Fetch d, Debug (''response message: '' @ resp_text resp),
                 Warning (''glossary '' @ trim (env ''glossary-name'')
                          @ '' is not found,continue to create'')])
          \<and> take 2 (calls (snd (main env srv))) = [Net ''DELETE'', Net ''POST''])
    \<and> (status resp \<noteq> 404 \<and> 300 \<le> status resp \<longrightarrow>
          fst (deleteGlossary srv (trim (env ''project-id'')) (trim (env ''glossary-name''))
              (trim (env ''access-token'')))
            = Inl (Error ''delete request failed'')
          \<and> fst (main env srv) = Inl (Error ''delete request failed'')
          \<and> calls (snd (main env srv)) = [Net ''DELETE''])"
proof (cases rule: requests_main[of env srv])
  case (1 xs)
  from assms(1) 1(2) have in_handler: "d \<in> set (requests (snd (handler env srv xs)))"
    by simp
  note facts = delete_answered[OF in_handler assms(2,3)]
  have answered: "srv (delete_request (trim (env ''project-id'')) (trim (env ''glossary-name''))
               (trim (env ''access-token''))) = Inr resp"
    using facts(1) assms(3) by simp
  have not_found: "deleteGlossary srv (trim (env ''project-id'')) (trim (env ''glossary-name''))
              (trim (env ''access-token''))
            = (Inr (), [Fetch d, Debug (''response message: '' @ resp_text resp),
                 Warning (''glossary '' @ trim (env ''glossary-name'')
                          @ '' is not found,continue to create'')])"
    if "status resp = 404"
    using that answered facts(1)
    by (intro io_eqI) (simp_all add: fst_deleteGlossary snd_deleteGlossary)
  have goes_on: "take 2 (calls (snd (main env srv))) = [Net ''DELETE'', Net ''POST'']"
    if "status resp = 404"
    by (simp only: 1(4) take2_append[OF facts(2)[OF that 1(1)]])
  have stops: "fst (deleteGlossary srv (trim (env ''project-id'')) (trim (env ''glossary-name''))
              (trim (env ''access-token'')))
            = Inl (Error ''delete request failed'')
          \<and> fst (main env srv) = Inl (Error ''delete request failed'')
          \<and> calls (snd (main env srv)) = [Net ''DELETE'']"
    if "status resp \<noteq> 404" "300 \<le> status resp"
    using facts(3)[OF that] that answered 1(3,4) by (simp add: fst_deleteGlossary)
  show ?thesis
    using facts(1) not_found goes_on stops by blast
next
  case 2
  with assms(1) show ?thesis by simp
qed

text \<open>Two runs of it: the delete answered 404, and the delete answered 500.\<close>

theorem delete_not_found_is_success_other_failures_stop_witness:
  "requests (snd (main pair_env (service 404 200 (operation RUNNING) 200 (operation RUNNING)))) ! 0
     \<in> set (requests (snd (main pair_env
           (service 404 200 (operation RUNNING) 200 (operation RUNNING)))))
   \<and> req_method (requests (snd (main pair_env
         (service 404 200 (operation RUNNING) 200 (operation RUNNING)))) ! 0) = ''DELETE''
   \<and> service 404 200 (operation RUNNING) 200 (operation RUNNING)
        (requests (snd (main pair_env
           (service 404 200 (operation RUNNING) 200 (operation RUNNING)))) ! 0)
       = Inr \<lparr>status = 404, resp_text = ''raw body'', resp_json = Inr (operation SUCCEEDED)\<rparr>
   \<and> fst (deleteGlossary (service 404 200 (operation RUNNING) 200 (operation RUNNING))
          (trim (pair_env ''project-id'')) (trim (pair_env ''glossary-name''))
          (trim (pair_env ''access-token''))) = Inr ()
   \<and> take 2 (calls (snd (main pair_env
         (service 404 200 (operation RUNNING) 200 (operation RUNNING)))))
       = [Net ''DELETE'', Net ''POST'']
   \<and> requests (snd (main pair_env (service 500 200 (operation RUNNING) 200 (operation RUNNING)))) ! 0
     \<in> set (requests (snd (main pair_env
           (service 500 200 (operation RUNNING) 200 (operation RUNNING)))))
   \<and> req_method (requests (snd (main pair_env
         (service 500 200 (operation RUNNING) 200 (operation RUNNING)))) ! 0) = ''DELETE''
   \<and> service 500 200 (operation RUNNING) 200 (operation RUNNING)
        (requests (snd (main pair_env
           (service 500 200 (operation RUNNING) 200 (operation RUNNING)))) ! 0)
       = Inr \<lparr>status = 500, resp_text = ''raw body'', resp_json = Inr (operation SUCCEEDED)\<rparr>
   \<and> fst (main pair_env (service 500 200 (operation RUNNING) 200 (operation RUNNING)))
       = Inl (Error ''delete request failed'')
   \<and> calls (snd (main pair_env (service 500 200 (operation RUNNING) 200 (operation RUNNING))))
       = [Net ''DELETE'']"
proof -
  let ?s = "service 404 200 (operation RUNNING) 200 (operation RUNNING)"
  let ?f = "service 500 200 (operation RUNNING) 200 (operation RUNNING)"
  have a1: "requests (snd (main pair_env ?s)) ! 0 \<in> set (requests (snd (main pair_env ?s)))"
    by code_simp
  have a2: "req_method (requests (snd (main pair_env ?s)) ! 0) = ''DELETE''"
    by code_simp
  have a3: "?s (requests (snd (main pair_env ?s)) ! 0)
      = Inr \<lparr>status = 404, resp_text = ''raw body'', resp_json = Inr (operation SUCCEEDED)\<rparr>"
    by code_simp
  have b1: "requests (snd (main pair_env ?f)) ! 0 \<in> set (requests (snd (main pair_env ?f)))"
    by code_simp
  have b2: "req_method (requests (snd (main pair_env ?f)) ! 0) = ''DELETE''"
    by code_simp
  have b3: "?f (requests (snd (main pair_env ?f)) ! 0)
      = Inr \<lparr>status = 500, resp_text = ''raw body'', resp_json = Inr (operation SUCCEEDED)\<rparr>"
    by code_simp
  show ?thesis
    using a1 a2 a3 b1 b2 b3
      delete_not_found_is_success_other_failures_stop[OF a1 a2 a3]
      delete_not_found_is_success_other_failures_stop[OF b1 b2 b3]
    by simp
qed

text \<open>
  Claim C9. The handler called with no input is not stopped by the guard on the number
  of inputs: it reads the required inputs, so the run has gone past the guard. The type
  is \<open>codesSet\<close>, and building the body throws a TypeError, since there is no first
  input to split. The handler never returns a snapshot there; when the delete call was
  answered with 404 or a status below 300, the TypeError is the result and the DELETE
  is the only call.
\<close>

theorem handler_without_inputs:
  "take 1 (reads (snd (handler env srv []))) = [''access-token'']
   \<and> input codesSet ri [] = throw (TypeError ''Cannot read properties of undefined (reading 'split')'')
   \<and> (\<forall>msg. fst (handler env srv []) \<noteq> Inr msg)
   \<and> (\<forall>d resp. d \<in> set (requests (snd (handler env srv []))) \<and> srv d = Inr resp
          \<and> (status resp = 404 \<or> status resp < 300)
        \<longrightarrow> fst (handler env srv [])
              = Inl (TypeError ''Cannot read properties of undefined (reading 'split')'')
            \<and> calls (snd (handler env srv [])) = [Net ''DELETE''])"
proof (intro conjI allI impI)
  show "take 1 (reads (snd (handler env srv []))) = [''access-token'']"
    by (cases rule: handler_cases[of "[]" env srv]) (simp_all add: snd_getRequiredInputs)
  show "input codesSet ri [] = throw (TypeError ''Cannot read properties of undefined (reading 'split')'')"
    by (simp add: input_def)
  show "fst (handler env srv []) \<noteq> Inr msg" for msg
    using fst_input_empty
    by (cases rule: handler_cases[of "[]" env srv]) auto
  fix d resp
  assume a: "d \<in> set (requests (snd (handler env srv []))) \<and> srv d = Inr resp
          \<and> (status resp = 404 \<or> status resp < 300)"
  then show "fst (handler env srv [])
              = Inl (TypeError ''Cannot read properties of undefined (reading 'split')'')"
    using fst_input_empty
    by (cases rule: handler_cases[of "[]" env srv]) (auto simp add: fst_deleteGlossary)
  from a show "calls (snd (handler env srv [])) = [Net ''DELETE'']"
    using fst_input_empty
    by (cases rule: handler_cases[of "[]" env srv]) (auto simp add: fst_deleteGlossary)
qed

text \<open>
  A run of it, with the delete answered 200; the same service with one input lets the
  handler return.
\<close>

theorem handler_without_inputs_witness:
  "requests (snd (handler set_env ok_service [])) ! 0
     \<in> set (requests (snd (handler set_env ok_service [])))
   \<and> ok_service (requests (snd (handler set_env ok_service [])) ! 0)
       = Inr \<lparr>status = 200, resp_text = ''raw body'', resp_json = Inr (operation SUCCEEDED)\<rparr>
   \<and> fst (handler set_env ok_service [])
       = Inl (TypeError ''Cannot read properties of undefined (reading 'split')'')
   \<and> calls (snd (handler set_env ok_service [])) = [Net ''DELETE'']
   \<and> fst (handler set_env ok_service [''en,fr,de'']) = Inr (operation SUCCEEDED)"
proof -
  have a1: "requests (snd (handler set_env ok_service [])) ! 0
     \<in> set (requests (snd (handler set_env ok_service [])))"
    by code_simp
  have a2: "ok_service (requests (snd (handler set_env ok_service [])) ! 0)
       = Inr \<lparr>status = 200, resp_text = ''raw body'', resp_json = Inr (operation SUCCEEDED)\<rparr>"
    by code_simp
  have a3: "status \<lparr>status = 200, resp_text = ''raw body'',
      resp_json = Inr (operation SUCCEEDED)\<rparr> < 300"
    by simp
  have a4: "fst (handler set_env ok_service [''en,fr,de'']) = Inr (operation SUCCEEDED)"
    by code_simp
  from handler_without_inputs[of set_env ok_service] a1 a2 a3
  have "fst (handler set_env ok_service [])
       = Inl (TypeError ''Cannot read properties of undefined (reading 'split')'')
     \<and> calls (snd (handler set_env ok_service [])) = [Net ''DELETE'']"
    by blast
  with a1 a2 a4 show ?thesis by blast
qed

text \<open>
  Claim C7. In every run of the program in which the read request is answered with a
  status below 300 and a decoded snapshot: without metadata the run fails with
  \<^verbatim>\<open>failed to parse google response of metaData field\<close>; with the state FAILED it fails
  with \<^verbatim>\<open>create operation failed\<close>, and the last line of the run is the error line that
  carries the remote error message; with the state RUNNING the handler returns the
  snapshot, the run succeeds and sets the output \<^verbatim>\<open>operation-name\<close> to the snapshot's
  name; with the state SUCCEEDED the handler returns the snapshot, the run succeeds, sets
  no output and ends with the line that logs the state.
\<close>

theorem inspected_state_decides_outcome:
  assumes "g \<in> set (requests (snd (main env srv)))" and "req_method g = ''GET''"
    and "srv g = Inr resp" and "status resp < 300" and "resp_json resp = Inr msg"
  shows
    "(metadata msg = None \<longrightarrow>
        fst (main env srv) = Inl (Error ''failed to parse google response of metaData field'')
        \<and> outputs (snd (main env srv)) = [])
     \<and> (\<forall>md. metadata msg = Some md \<longrightarrow>
          (state md = FAILED \<longrightarrow>
             fst (main env srv) = Inl (Error ''create operation failed'')
             \<and> last (snd (main env srv))
                 = ErrorLog (''create operation has failed. message:''
                     @ (case error msg of None \<Rightarrow> ''undefined'' | Some e \<Rightarrow> message e))
             \<and> outputs (snd (main env srv)) = [])
        \<and> (state md = RUNNING \<longrightarrow>
             fst (main env srv) = Inr ()
             \<and> (fst (handler env srv [trim (env ''target-language''), trim (env ''source-language'')])
                   = Inr msg
                 \<or> fst (handler env srv [trim (env ''language-codes-set'')]) = Inr msg)
             \<and> outputs (snd (main env srv)) = [(''operation-name'', name msg)]
             \<and> last (snd (main env srv)) = Info ''update is RUNNING'')
        \<and> (state md = SUCCEEDED \<longrightarrow>
             fst (main env srv) = Inr ()
             \<and> (fst (handler env srv [trim (env ''target-language''), trim (env ''source-language'')])
                   = Inr msg
                 \<or> fst (handler env srv [trim (env ''language-codes-set'')]) = Inr msg)
             \<and> outputs (snd (main env srv)) = []
             \<and> last (snd (main env srv)) = Info ''update is SUCCEEDED''))"
proof (cases rule: main_cases[of env srv])
  case (Dispatched xs pre)
  have "requests (snd (main env srv)) = requests (snd (handler env srv xs))"
    using Dispatched(2,6) by (simp split: sum.splits)
  with assms(1) have in_handler: "g \<in> set (requests (snd (handler env srv xs)))"
    by simp
  note result = inspect_answered(1)[OF in_handler assms(2-5)]
  from inspect_answered(2)[OF in_handler assms(2-5)]
  obtain before where trace: "snd (handler env srv xs) = before @ snd (check msg)"
    by blast
  have out: "outputs (snd (main env srv))
      = (case fst (handler env srv xs) of Inl e \<Rightarrow> [] | Inr m \<Rightarrow> outputs (snd (report m)))"
    using Dispatched(4,6) by (simp split: sum.splits)
  have missing: "fst (main env srv)
        = Inl (Error ''failed to parse google response of metaData field'')
      \<and> outputs (snd (main env srv)) = []"
    if "metadata msg = None"
    using that result out Dispatched(5) by (simp add: fst_check)
  have failed: "fst (main env srv) = Inl (Error ''create operation failed'')
      \<and> last (snd (main env srv))
          = ErrorLog (''create operation has failed. message:''
              @ (case error msg of None \<Rightarrow> ''undefined'' | Some e \<Rightarrow> message e))
      \<and> outputs (snd (main env srv)) = []"
    if "metadata msg = Some md" "state md = FAILED" for md
    using that result out trace Dispatched(5,6) by (simp add: fst_check snd_check)
  have returned: "fst (main env srv) = Inr ()
      \<and> (fst (handler env srv [trim (env ''target-language''), trim (env ''source-language'')])
            = Inr msg
          \<or> fst (handler env srv [trim (env ''language-codes-set'')]) = Inr msg)
      \<and> outputs (snd (main env srv))
          = (if state md = RUNNING then [(''operation-name'', name msg)] else [])
      \<and> last (snd (main env srv)) = Info (''update is '' @ STATE_string (state md))"
    if "metadata msg = Some md" "state md \<noteq> FAILED" for md
  proof -
    have r: "fst (handler env srv xs) = Inr msg"
      using that result by (simp add: fst_check)
    then have "fst (handler env srv [trim (env ''target-language''), trim (env ''source-language'')])
            = Inr msg
          \<or> fst (handler env srv [trim (env ''language-codes-set'')]) = Inr msg"
      using Dispatched(1) by auto
    moreover have "fst (main env srv) = Inr ()"
      using r Dispatched(5) by simp
    moreover have "outputs (snd (main env srv))
          = (if state md = RUNNING then [(''operation-name'', name msg)] else [])"
      using r out that(1) by simp
    moreover have "last (snd (main env srv)) = Info (''update is '' @ STATE_string (state md))"
      using r that(1) Dispatched(6) by (simp add: snd_report)
    ultimately show ?thesis by blast
  qed
  show ?thesis
  proof (intro conjI allI impI)
    fix md assume md: "metadata msg = Some md"
    { assume "state md = RUNNING"
      with returned[OF md] show "fst (main env srv) = Inr ()"
        and "fst (handler env srv [trim (env ''target-language''), trim (env ''source-language'')])
                   = Inr msg
                 \<or> fst (handler env srv [trim (env ''language-codes-set'')]) = Inr msg"
        and "outputs (snd (main env srv)) = [(''operation-name'', name msg)]"
        and "last (snd (main env srv)) = Info ''update is RUNNING''"
        by simp_all }
    { assume "state md = SUCCEEDED"
      with returned[OF md] show "fst (main env srv) = Inr ()"
        and "fst (handler env srv [trim (env ''target-language''), trim (env ''source-language'')])
                   = Inr msg
                 \<or> fst (handler env srv [trim (env ''language-codes-set'')]) = Inr msg"
        and "outputs (snd (main env srv)) = []"
        and "last (snd (main env srv)) = Info ''update is SUCCEEDED''"
        by simp_all }
    { assume "state md = FAILED"
      with failed[OF md] show "fst (main env srv) = Inl (Error ''create operation failed'')"
        and "last (snd (main env srv))
                 = ErrorLog (''create operation has failed. message:''
                     @ (case error msg of None \<Rightarrow> ''undefined'' | Some e \<Rightarrow> message e))"
        and "outputs (snd (main env srv)) = []"
        by simp_all }
  qed (use missing in simp_all)
next
  case Rejected
  with assms(1) show ?thesis by simp
qed

text \<open>
  Four runs of it in pair mode, the snapshot RUNNING, SUCCEEDED, FAILED and without
  metadata.
\<close>

theorem inspected_state_decides_outcome_witness:
  "requests (snd (main pair_env (service 200 200 (operation RUNNING) 200 (operation RUNNING)))) ! 2
     \<in> set (requests (snd (main pair_env
           (service 200 200 (operation RUNNING) 200 (operation RUNNING)))))
   \<and> req_method (requests (snd (main pair_env
         (service 200 200 (operation RUNNING) 200 (operation RUNNING)))) ! 2) = ''GET''
   \<and> service 200 200 (operation RUNNING) 200 (operation RUNNING)
        (requests (snd (main pair_env
           (service 200 200 (operation RUNNING) 200 (operation RUNNING)))) ! 2)
       = Inr \<lparr>status = 200, resp_text = ''raw body'', resp_json = Inr (operation RUNNING)\<rparr>
   \<and> fst (main pair_env (service 200 200 (operation RUNNING) 200 (operation RUNNING))) = Inr ()
   \<and> outputs (snd (main pair_env (service 200 200 (operation RUNNING) 200 (operation RUNNING))))
       = [(''operation-name'', Some ''projects/prj/locations/us-central1/operations/op1'')]
   \<and> fst (main pair_env ok_service) = Inr ()
   \<and> outputs (snd (main pair_env ok_service)) = []
   \<and> last (snd (main pair_env ok_service)) = Info ''update is SUCCEEDED''
   \<and> fst (main pair_env (service 200 200 (operation RUNNING) 200 (operation FAILED)))
       = Inl (Error ''create operation failed'')
   \<and> last (snd (main pair_env (service 200 200 (operation RUNNING) 200 (operation FAILED))))
       = ErrorLog ''create operation has failed. message:bad input file''
   \<and> fst (main pair_env (service 200 200 (operation RUNNING) 200 unnamed))
       = Inl (Error ''failed to parse google response of metaData field'')"
proof -
  let ?r = "service 200 200 (operation RUNNING) 200 (operation RUNNING)"
  let ?f = "service 200 200 (operation RUNNING) 200 (operation FAILED)"
  let ?u = "service 200 200 (operation RUNNING) 200 unnamed"
  have r1: "requests (snd (main pair_env ?r)) ! 2 \<in> set (requests (snd (main pair_env ?r)))"
    by code_simp
  have r2: "req_method (requests (snd (main pair_env ?r)) ! 2) = ''GET''"
    by code_simp
  have r3: "?r (requests (snd (main pair_env ?r)) ! 2)
      = Inr \<lparr>status = 200, resp_text = ''raw body'', resp_json = Inr (operation RUNNING)\<rparr>"
    by code_simp
  have s1: "requests (snd (main pair_env ok_service)) ! 2
      \<in> set (requests (snd (main pair_env ok_service)))"
    by code_simp
  have s2: "req_method (requests (snd (main pair_env ok_service)) ! 2) = ''GET''"
    by code_simp
  have s3: "ok_service (requests (snd (main pair_env ok_service)) ! 2)
      = Inr \<lparr>status = 200, resp_text = ''raw body'', resp_json = Inr (operation SUCCEEDED)\<rparr>"
    by code_simp
  have f1: "requests (snd (main pair_env ?f)) ! 2 \<in> set (requests (snd (main pair_env ?f)))"
    by code_simp
  have f2: "req_method (requests (snd (main pair_env ?f)) ! 2) = ''GET''"
    by code_simp
  have f3: "?f (requests (snd (main pair_env ?f)) ! 2)
      = Inr \<lparr>status = 200, resp_text = ''raw body'', resp_json = Inr (operation FAILED)\<rparr>"
    by code_simp
  have u1: "requests (snd (main pair_env ?u)) ! 2 \<in> set (requests (snd (main pair_env ?u)))"
    by code_simp
  have u2: "req_method (requests (snd (main pair_env ?u)) ! 2) = ''GET''"
    by code_simp
  have u3: "?u (requests (snd (main pair_env ?u)) ! 2)
      = Inr \<lparr>status = 200, resp_text = ''raw body'', resp_json = Inr unnamed\<rparr>"
    by code_simp
  have lt: "status \<lparr>status = 200, resp_text = ''raw body'', resp_json = j\<rparr> < 300" for j
    by simp
  have js: "resp_json \<lparr>status = 200, resp_text = ''raw body'', resp_json = Inr m\<rparr> = Inr m"
    for m :: GoogleResponse
    by simp
  show ?thesis
    using r1 r2 r3
      inspected_state_decides_outcome[OF r1 r2 r3 lt js]
      inspected_state_decides_outcome[OF s1 s2 s3 lt js]
      inspected_state_decides_outcome[OF f1 f2 f3 lt js]
      inspected_state_decides_outcome[OF u1 u2 u3 lt js]
    by (simp add: operation_def unnamed_def)
qed

text \<open>
  Claim C8. The body of every create request the handler sends is the serialization of
  an object with three properties. Its \<^verbatim>\<open>name\<close> is
  \<^verbatim>\<open>projects/{projectId}/locations/us-central1/glossaries/{glossaryName}\<close> and its
  \<^verbatim>\<open>inputConfig.gcsSource.inputUri\<close> is \<^verbatim>\<open>gs://{bucket}/{fileName}\<close>, in both modes. With
  one input the third property is \<^verbatim>\<open>languageCodesSet\<close>, whose \<^verbatim>\<open>languageCodes\<close> are the
  pieces of the input between its commas, and there is no \<^verbatim>\<open>languagePair\<close>; with two
  inputs it is \<^verbatim>\<open>languagePair\<close> and there is no \<^verbatim>\<open>languageCodesSet\<close>. The input
  \<^verbatim>\<open>en,fr,de\<close> splits into \<^verbatim>\<open>en\<close>, \<^verbatim>\<open>fr\<close>, \<^verbatim>\<open>de\<close>.
\<close>

theorem create_body_by_mode:
  assumes "c \<in> set (requests (snd (handler env srv inputsRaw)))" and "req_method c = ''POST''"
  shows "\<exists>obj. req_body c = Some (JSON_stringify obj)
    \<and> property obj ''name''
        = Some (JString (''projects/'' @ trim (env ''project-id'')
                  @ ''/locations/us-central1/glossaries/'' @ trim (env ''glossary-name'')))
    \<and> property obj ''inputConfig''
        = Some (JObject [(''gcsSource'', JObject [(''inputUri'',
                  JString (''gs://'' @ trim (env ''bucket-name'') @ ''/''
                    @ trim (env ''glossary-file-name'')))])])
    \<and> (length inputsRaw = 1 \<or> length inputsRaw = 2)
    \<and> (length inputsRaw = 1 \<longrightarrow>
          property obj ''languageCodesSet''
            = Some (JObject [(''languageCodes'',
                      JArray (map JString (js_split CHR '','' (inputsRaw ! 0))))])
          \<and> property obj ''languagePair'' = None
          \<and> (\<exists>nm cs cfg. obj = JObject [(''name'', nm), (''languageCodesSet'', cs),
                                         (''inputConfig'', cfg)]))
    \<and> (length inputsRaw = 2 \<longrightarrow>
          property obj ''languagePair''
            = Some (JObject [(''sourceLanguageCode'', JString (inputsRaw ! 0)),
                             (''targetLanguageCode'', JString (inputsRaw ! 1))])
          \<and> property obj ''languageCodesSet'' = None
          \<and> (\<exists>nm lp cfg. obj = JObject [(''name'', nm), (''languagePair'', lp),
                                         (''inputConfig'', cfg)]))
    \<and> js_split CHR '','' ''en,fr,de'' = [''en'', ''fr'', ''de'']"
proof -
  from assms obtain ri body where ri: "fst (getRequiredInputs env) = Inr ri"
    and body: "fst (input (if 1 < length inputsRaw then onePair else codesSet) ri inputsRaw)
                 = Inr body"
    and len: "\<not> 2 < length inputsRaw"
    and c: "c = create_request body (projectId ri) (accessToken ri)"
    by (rule create_sent)
  have sent: "req_body c = Some body"
    using c by (simp add: create_request_def Let_def)
  have full: "glossaryFullName ri = ''projects/'' @ trim (env ''project-id'')
                  @ ''/locations/us-central1/glossaries/'' @ trim (env ''glossary-name'')"
    by (simp add: glossaryFullName_def required_inputs_resolved[OF ri])
  have path: "glossaryFilePath ri = ''gs://'' @ trim (env ''bucket-name'') @ ''/''
                    @ trim (env ''glossary-file-name'')"
    by (simp add: glossaryFilePath_def required_inputs_resolved[OF ri])
  have split: "js_split CHR '','' ''en,fr,de'' = [''en'', ''fr'', ''de'']"
    by simp
  from input_body[OF body len] show ?thesis
  proof
    assume "length inputsRaw = 1 \<and> body = JSON_stringify (JObject
            [(''name'', JString (glossaryFullName ri)),
             (''languageCodesSet'', JObject
                [(''languageCodes'', JArray (map JString (js_split CHR '','' (inputsRaw ! 0))))]),
             (''inputConfig'', JObject
                [(''gcsSource'', JObject [(''inputUri'', JString (glossaryFilePath ri))])])])"
    with sent full path split show ?thesis
      by (intro exI[of _ "JObject
            [(''name'', JString (glossaryFullName ri)),
             (''languageCodesSet'', JObject
                [(''languageCodes'', JArray (map JString (js_split CHR '','' (inputsRaw ! 0))))]),
             (''inputConfig'', JObject
                [(''gcsSource'', JObject [(''inputUri'', JString (glossaryFilePath ri))])])]"])
        simp
  next
    assume "length inputsRaw = 2 \<and> body = JSON_stringify (JObject
            [(''name'', JString (glossaryFullName ri)),
             (''languagePair'', JObject
                [(''sourceLanguageCode'', JString (inputsRaw ! 0)),
                 (''targetLanguageCode'', JString (inputsRaw ! 1))]),
             (''inputConfig'', JObject
                [(''gcsSource'', JObject [(''inputUri'', JString (glossaryFilePath ri))])])])"
    with sent full path split show ?thesis
      by (intro exI[of _ "JObject
            [(''name'', JString (glossaryFullName ri)),
             (''languagePair'', JObject
                [(''sourceLanguageCode'', JString (inputsRaw ! 0)),
                 (''targetLanguageCode'', JString (inputsRaw ! 1))]),
             (''inputConfig'', JObject
                [(''gcsSource'', JObject [(''inputUri'', JString (glossaryFilePath ri))])])]"])
        simp
  qed
qed

text \<open>A run of it in codes-set mode with the input \<^verbatim>\<open>en,fr,de\<close>.\<close>

theorem create_body_by_mode_witness:
  "requests (snd (handler set_env ok_service [''en,fr,de''])) ! 1
     \<in> set (requests (snd (handler set_env ok_service [''en,fr,de''])))
   \<and> req_method (requests (snd (handler set_env ok_service [''en,fr,de''])) ! 1) = ''POST''
   \<and> req_body (requests (snd (handler set_env ok_service [''en,fr,de''])) ! 1)
       = Some (JSON_stringify (JObject
          [(''name'', JString ''projects/prj/locations/us-central1/glossaries/gls''),
           (''languageCodesSet'', JObject
              [(''languageCodes'', JArray [JString ''en'', JString ''fr'', JString ''de''])]),
           (''inputConfig'', JObject
              [(''gcsSource'', JObject [(''inputUri'', JString ''gs://bkt/terms.csv'')])])]))
   \<and> (\<exists>obj. req_body (requests (snd (handler set_env ok_service [''en,fr,de''])) ! 1)
              = Some (JSON_stringify obj)
          \<and> property obj ''languageCodesSet''
              = Some (JObject [(''languageCodes'',
                        JArray [JString ''en'', JString ''fr'', JString ''de''])])
          \<and> property obj ''languagePair'' = None)"
proof -
  let ?c = "requests (snd (handler set_env ok_service [''en,fr,de''])) ! 1"
  have a1: "?c \<in> set (requests (snd (handler set_env ok_service [''en,fr,de''])))"
    by code_simp
  have a2: "req_method ?c = ''POST''"
    by code_simp
  have a3: "req_body ?c = Some (JSON_stringify (JObject
          [(''name'', JString ''projects/prj/locations/us-central1/glossaries/gls''),
           (''languageCodesSet'', JObject
              [(''languageCodes'', JArray [JString ''en'', JString ''fr'', JString ''de''])]),
           (''inputConfig'', JObject
              [(''gcsSource'', JObject [(''inputUri'', JString ''gs://bkt/terms.csv'')])])]))"
    by code_simp
  from create_body_by_mode[OF a1 a2]
  have "\<exists>obj. req_body ?c = Some (JSON_stringify obj)
          \<and> property obj ''languageCodesSet''
              = Some (JObject [(''languageCodes'',
                        JArray [JString ''en'', JString ''fr'', JString ''de''])])
          \<and> property obj ''languagePair'' = None"
    by auto
  with a1 a2 a3 show ?thesis by blast
qed

text \<open>
  Claim C1, evaluated. The program is run with \<^verbatim>\<open>target-language\<close> \<^verbatim>\<open>en\<close> and
  \<^verbatim>\<open>source-language\<close> \<^verbatim>\<open>fr\<close>. \<^verbatim>\<open>main\<close> passes the target first and the handler
  reads its first input as the source: the one create request of the run carries
  \<^verbatim>\<open>sourceLanguageCode\<close> \<^verbatim>\<open>en\<close> and \<^verbatim>\<open>targetLanguageCode\<close> \<^verbatim>\<open>fr\<close>, the two
  languages exchanged.
\<close>

theorem pair_mode_sends_target_as_source:
  "pair_env ''target-language'' = ''en'' \<and> pair_env ''source-language'' = ''fr''
   \<and> map req_body (filter (\<lambda>r. req_method r = ''POST'')
        (requests (snd (main pair_env ok_service))))
     = [Some (JSON_stringify (JObject
          [(''name'', JString ''projects/prj/locations/us-central1/glossaries/gls''),
           (''languagePair'', JObject
              [(''sourceLanguageCode'', JString ''en''),
               (''targetLanguageCode'', JString ''fr'')]),
           (''inputConfig'', JObject
              [(''gcsSource'', JObject [(''inputUri'', JString ''gs://bkt/terms.csv'')])])]))]"
  by code_simp

text \<open>
  Claim C2, evaluated. A create request answered with status 500 makes
  \<^verbatim>\<open>createGlossary\<close> throw, with the body of the answer in the error line; so does a
  read request answered 500 for \<^verbatim>\<open>headOperation\<close>, with the decoded payload in the
  error line. Both the line and the error name the delete request, not the operation
  that failed.
\<close>

theorem create_and_inspect_failures_say_delete:
  "createGlossary (service 200 500 (operation RUNNING) 200 (operation RUNNING))
      ''{}'' ''prj'' ''tok''
     = (Inl (Error ''delete request failed''),
        [Fetch (create_request ''{}'' ''prj'' ''tok''),
         Debug ''error message:raw body'',
         ErrorLog ''delete glossary request failed with status:500 message:raw body''])
   \<and> headOperation (service 200 200 (operation RUNNING) 500 unnamed) ''operations/op1'' ''tok''
     = (Inl (Error ''delete request failed''),
        [Fetch (inspect_request ''operations/op1'' ''tok''),
         Debug ''error message:[object Object]'',
         ErrorLog ''delete glossary request failed with status:500 message:{}''])"
  by code_simp

text \<open>
  Claim C3, evaluated. The entry point calls \<^verbatim>\<open>main\<close> without awaiting it, so whatever
  \<^verbatim>\<open>main\<close> does the \<^verbatim>\<open>try\<close> block ends normally with the events of \<^verbatim>\<open>main\<close>, and no
  run of the program raises the failure signal. Two runs in which \<^verbatim>\<open>main\<close> fails: no
  language input at all, and the delete answered 500.
\<close>

theorem main_failure_never_reaches_setFailed:
  "program env srv = (Inr (), snd (main env srv))
   \<and> failures (snd (program env srv)) = []
   \<and> fst (main (inputs_of required_env) ok_service)
       = Inl (Error ''Not appropriate language code input setting'')
   \<and> program (inputs_of required_env) ok_service
       = (Inr (), [GetInput ''target-language'', GetInput ''source-language'',
                   GetInput ''language-codes-set''])
   \<and> fst (main pair_env (service 500 200 (operation RUNNING) 200 (operation RUNNING)))
       = Inl (Error ''delete request failed'')
   \<and> calls (snd (program pair_env (service 500 200 (operation RUNNING) 200 (operation RUNNING))))
       = [Net ''DELETE'']"
proof -
  have "fst (main (inputs_of required_env) ok_service)
       = Inl (Error ''Not appropriate language code input setting'')"
    by code_simp
  moreover have "program (inputs_of required_env) ok_service
       = (Inr (), [GetInput ''target-language'', GetInput ''source-language'',
                   GetInput ''language-codes-set''])"
    by code_simp
  moreover have "fst (main pair_env (service 500 200 (operation RUNNING) 200 (operation RUNNING)))
       = Inl (Error ''delete request failed'')"
    by code_simp
  moreover have "calls (snd (program pair_env
        (service 500 200 (operation RUNNING) 200 (operation RUNNING)))) = [Net ''DELETE'']"
    by code_simp
  ultimately show ?thesis
    by (simp add: program_result)
qed

end
